theory Spec2Isabelle
  imports Main "HOL-Library.Finite_Map" "HOL-Library.Char_ord" "HOL-Library.List_Lexorder"
begin

section \<open>Plain data of the synchronized mirrors\<close>

text \<open>
  The figure's mirrors (\<^verbatim>\<open>_data\<close>, \<^verbatim>\<open>_layout\<close>) and the patches applied to them are
  JSON-like Python values. A path segment produced by \<^verbatim>\<open>_str_to_dict_path\<close> is a
  \<^verbatim>\<open>str\<close> or an \<^verbatim>\<open>int\<close>, and both can end up as dictionary keys.

  The values are modelled as trees: a Python \<^verbatim>\<open>dict\<close> is a finite map (its \<^verbatim>\<open>==\<close> does
  not look at insertion order), \<^verbatim>\<open>Undefined\<close> is the traitlets sentinel, and equality
  of values (\<^verbatim>\<open>BasePlotlyType._vals_equal\<close>, line 1579) is equality of trees. Floats and
  numpy arrays are not part of the model, and two positions of a mirror never share
  one mutable container.
\<close>

datatype pkey = KStr string | KInt int

datatype pval =
    PNone
  | PUndefined
  | PInt int
  | PStr string
  | PList "pval list"
  | PDict "(pkey, pval) fmap"

definition vals_equal :: "pval \<Rightarrow> pval \<Rightarrow> bool" where
  "vals_equal v1 v2 = (v1 = v2)"

fun is_list :: "pval \<Rightarrow> bool" where
  "is_list (PList xs) = True"
| "is_list v = False"

fun is_dict :: "pval \<Rightarrow> bool" where
  "is_dict (PDict m) = True"
| "is_dict v = False"

fun elems :: "pval \<Rightarrow> pval list" where
  "elems (PList xs) = xs"
| "elems v = []"

text \<open>Every \<^verbatim>\<open>raise\<close> of the modelled code, and the built-in exceptions it can run into.\<close>

datatype error =
    InvalidTraces "pval list"
      \<comment> \<open>\<^verbatim>\<open>ValueError\<close>, line 242: uids assigned to \<^verbatim>\<open>data\<close> that the figure does not hold\<close>
  | DuplicateTraces "pval list"
      \<comment> \<open>\<^verbatim>\<open>ValueError\<close>, line 250: uids assigned more than once\<close>
  | TraceIndexOutOfRange int
      \<comment> \<open>\<^verbatim>\<open>ValueError\<close>, line 375\<close>
  | RestyleObjectsNotSupported
      \<comment> \<open>\<^verbatim>\<open>ValueError\<close>, line 368: "Restyling objects not supported, only individual properties"\<close>
  | TracesAddedInBatch
      \<comment> \<open>\<^verbatim>\<open>ValueError\<close>, line 511: "Traces may not be added in a batch context"\<close>
  | UnrecognizedChild
      \<comment> \<open>\<^verbatim>\<open>ValueError\<close>, lines 567 and 580\<close>
  | NotInSequence
      \<comment> \<open>\<^verbatim>\<open>ValueError\<close> of \<^verbatim>\<open>tuple.index\<close> and \<^verbatim>\<open>list.index\<close>\<close>
  | SubplotSuffix string
      \<comment> \<open>\<^verbatim>\<open>TypeError\<close>, line 1803: "Subplot properties may only be suffixed by an integer > 1"\<close>
  | Rejected
      \<comment> \<open>a validator's \<^verbatim>\<open>validate_coerce\<close> refused the value\<close>
  | TypeError
  | KeyError pkey
  | IndexError
  | ZeroDivisionError
  | AttributeError
  | AssertionError
  | RecursionError

fun is_ValueError :: "error \<Rightarrow> bool" where
  "is_ValueError (InvalidTraces us) = True"
| "is_ValueError (DuplicateTraces us) = True"
| "is_ValueError (TraceIndexOutOfRange t) = True"
| "is_ValueError RestyleObjectsNotSupported = True"
| "is_ValueError TracesAddedInBatch = True"
| "is_ValueError UnrecognizedChild = True"
| "is_ValueError NotInSequence = True"
| "is_ValueError e = False"

subsection \<open>Python sequences\<close>

text \<open>\<^verbatim>\<open>xs[i]\<close>: a negative index counts from the end, anything else out of range raises.\<close>

definition py_index :: "'a list \<Rightarrow> int \<Rightarrow> nat option" where
  "py_index xs i =
     (if 0 \<le> i \<and> i < int (length xs) then Some (nat i)
      else if i < 0 \<and> - int (length xs) \<le> i then Some (nat (i + int (length xs)))
      else None)"

text \<open>\<^verbatim>\<open>while len(val_parent) <= key_path_el: val_parent.append(None)\<close>\<close>

definition extend_list :: "pval list \<Rightarrow> int \<Rightarrow> pval list" where
  "extend_list xs k = xs @ replicate (nat (k + 1 - int (length xs))) PNone"

subsection \<open>Key paths\<close>

text \<open>
  \<^verbatim>\<open>_str_to_dict_path\<close> (line 1247) for a \<^verbatim>\<open>str\<close> key: split on periods, split a trailing
  bracket index off each piece (\<^verbatim>\<open>(.*)\[(\d+)\]\<close>, full match), then turn every piece
  that \<^verbatim>\<open>int()\<close> accepts into an integer. Strings are ASCII here.
\<close>

fun split_on :: "char \<Rightarrow> string \<Rightarrow> string list" where
  "split_on c [] = [[]]"
| "split_on c (x # xs) =
     (if x = c then [] # split_on c xs
      else (case split_on c xs of [] \<Rightarrow> [[x]] | p # ps \<Rightarrow> (x # p) # ps))"

definition is_digit :: "char \<Rightarrow> bool" where
  "is_digit c = (c \<in> set ''0123456789'')"

definition digit_val :: "char \<Rightarrow> int" where
  "digit_val c = int (of_char c) - 48"

definition digits_val :: "string \<Rightarrow> int" where
  "digits_val ds = foldl (\<lambda>a c. 10 * a + digit_val c) 0 ds"

text \<open>The regular expression \<^verbatim>\<open>(.*)\[(\d+)\]\<close> against the whole piece; \<^verbatim>\<open>.\<close> is not a newline.\<close>

definition bracket_match :: "string \<Rightarrow> (string \<times> string) option" where
  "bracket_match key =
     (case rev key of
        [] \<Rightarrow> None
      | c # r \<Rightarrow>
          if c \<noteq> CHR '']'' then None
          else (let ds = takeWhile is_digit r; r' = dropWhile is_digit r in
                case r' of
                  [] \<Rightarrow> None
                | b # p \<Rightarrow>
                    if b = CHR ''['' \<and> ds \<noteq> [] \<and> CHR 0x0A \<notin> set p
                    then Some (rev p, rev ds) else None))"

text \<open>
  \<^verbatim>\<open>int(s)\<close> on ASCII text: surrounding whitespace, an optional sign, and decimal digits
  in groups joined by single underscores.
\<close>

definition is_space :: "char \<Rightarrow> bool" where
  "is_space c = (let n = (of_char c :: nat) in (9 \<le> n \<and> n \<le> 13) \<or> (28 \<le> n \<and> n \<le> 32))"

definition strip :: "string \<Rightarrow> string" where
  "strip s = rev (dropWhile is_space (rev (dropWhile is_space s)))"

definition digit_groups :: "string \<Rightarrow> int option" where
  "digit_groups s =
     (let gs = split_on (CHR ''_'') s in
      if list_all (\<lambda>g. g \<noteq> [] \<and> list_all is_digit g) gs
      then Some (digits_val (concat gs)) else None)"

definition py_int :: "string \<Rightarrow> int option" where
  "py_int s =
     (case strip s of
        [] \<Rightarrow> None
      | c # r \<Rightarrow>
          if c = CHR ''+'' then digit_groups r
          else if c = CHR ''-'' then map_option uminus (digit_groups r)
          else digit_groups (c # r))"

definition to_key :: "string \<Rightarrow> pkey" where
  "to_key s = (case py_int s of Some n \<Rightarrow> KInt n | None \<Rightarrow> KStr s)"

definition str_to_dict_path :: "string \<Rightarrow> pkey list" where
  "str_to_dict_path raw_key =
     map to_key
       (concat (map (\<lambda>key. case bracket_match key of
                              Some (p, ds) \<Rightarrow> [p, ds]
                            | None \<Rightarrow> [key])
                    (split_on (CHR ''.'') raw_key)))"

definition startswith_underscore :: "string \<Rightarrow> bool" where
  "startswith_underscore raw_key = (case raw_key of [] \<Rightarrow> False | c # r \<Rightarrow> c = CHR ''_'')"

section \<open>The patch walk of restyle\<close>

text \<open>
  Lines 376 to 390 of \<^verbatim>\<open>_perform_restyle_dict\<close>: before stepping into
  \<^verbatim>\<open>val_parent[key_path_el]\<close>, a list is padded with \<^verbatim>\<open>None\<close> up to an integer
  segment, and a dict that lacks the segment gets an empty list or dict, chosen by the
  segment that follows.
\<close>

fun is_int_key :: "pkey \<Rightarrow> bool" where
  "is_int_key (KInt n) = True"
| "is_int_key (KStr s) = False"

fun vivify :: "pval \<Rightarrow> pkey \<Rightarrow> pkey \<Rightarrow> pval" where
  "vivify (PList xs) (KInt k) nxt = PList (extend_list xs k)"
| "vivify (PDict m) el nxt =
     (if fmlookup m el = None
      then PDict (fmupd el (if is_int_key nxt then PList [] else PDict fmempty) m)
      else PDict m)"
| "vivify v el nxt = v"

text \<open>\<^verbatim>\<open>val_parent[key_path_el]\<close> as Python evaluates it on each kind of value.\<close>

fun subscript :: "pval \<Rightarrow> pkey \<Rightarrow> error + pval" where
  "subscript (PList xs) (KInt k) =
     (case py_index xs k of None \<Rightarrow> Inl IndexError | Some j \<Rightarrow> Inr (xs ! j))"
| "subscript (PList xs) (KStr s) = Inl TypeError"
| "subscript (PDict m) el =
     (case fmlookup m el of None \<Rightarrow> Inl (KeyError el) | Some v \<Rightarrow> Inr v)"
| "subscript (PStr s) (KInt k) =
     (case py_index s k of None \<Rightarrow> Inl IndexError | Some j \<Rightarrow> Inr (PStr [s ! j]))"
| "subscript v el = Inl TypeError"

text \<open>
  The walk mutates the containers it passes through, so the model hands the changed
  child back to its parent. A \<^verbatim>\<open>str\<close> is immutable: nothing is handed back to it.
\<close>

fun store_back :: "pval \<Rightarrow> pkey \<Rightarrow> pval \<Rightarrow> pval" where
  "store_back (PList xs) (KInt k) c =
     (case py_index xs k of None \<Rightarrow> PList xs | Some j \<Rightarrow> PList (xs[j := c]))"
| "store_back (PDict m) el c = PDict (fmupd el c m)"
| "store_back v el c = v"

text \<open>
  The walk along \<^verbatim>\<open>key_path[:-1]\<close> followed by the action at \<^verbatim>\<open>key_path[-1]\<close>. The
  result is the value as the walk left it, also when an exception cut the walk short.
\<close>

fun walk_path ::
  "(pval \<Rightarrow> pkey \<Rightarrow> pval \<times> (error + 'r)) \<Rightarrow> pval \<Rightarrow> pkey list \<Rightarrow> pval \<times> (error + 'r)" where
  "walk_path leaf vp [] = (vp, Inl IndexError)"
| "walk_path leaf vp [last_key] = leaf vp last_key"
| "walk_path leaf vp (el # nxt # rest) =
     (let vp1 = vivify vp el nxt in
      case subscript vp1 el of
        Inl e \<Rightarrow> (vp1, Inl e)
      | Inr child \<Rightarrow>
          (case walk_path leaf child (nxt # rest) of
             (child', r) \<Rightarrow> (store_back vp1 el child', r)))"

text \<open>
  Lines 392 to 408: \<^verbatim>\<open>trace_v = v[i % len(v)]\<close> (an empty list divides by zero), then
  the three-way branch on \<^verbatim>\<open>trace_v\<close>. The result is \<^verbatim>\<open>trace_v\<close> and whether a
  stored value changed.
\<close>

definition cyclic :: "pval list \<Rightarrow> nat \<Rightarrow> pval option" where
  "cyclic vs i = (if vs = [] then None else Some (vs ! (i mod length vs)))"

fun restyle_leaf :: "pval option \<Rightarrow> pval \<Rightarrow> pkey \<Rightarrow> pval \<times> (error + pval \<times> bool)" where
  "restyle_leaf None vp last_key = (vp, Inl ZeroDivisionError)"
| "restyle_leaf (Some trace_v) vp last_key =
     (if vals_equal trace_v PUndefined then (vp, Inr (trace_v, False))
      else if trace_v = PNone then
        (case vp of
           PDict m \<Rightarrow>
             if fmlookup m last_key \<noteq> None then (PDict (fmdrop last_key m), Inr (trace_v, True))
             else (vp, Inr (trace_v, False))
         | _ \<Rightarrow> (vp, Inr (trace_v, False)))
      else
        (case vp of
           PDict m \<Rightarrow>
             (case fmlookup m last_key of
                None \<Rightarrow> (PDict (fmupd last_key trace_v m), Inr (trace_v, True))
              | Some old \<Rightarrow>
                  if \<not> vals_equal old trace_v
                  then (PDict (fmupd last_key trace_v m), Inr (trace_v, True))
                  else (vp, Inr (trace_v, False)))
         | _ \<Rightarrow> (vp, Inr (trace_v, False))))"

text \<open>
  The loop \<^verbatim>\<open>for i, trace_ind in enumerate(trace_indexes)\<close> (line 373) for one key:
  \<^verbatim>\<open>d\<close> is \<^verbatim>\<open>self._data\<close>, \<^verbatim>\<open>vs\<close> the patch value as a list, \<^verbatim>\<open>acc\<close> is
  \<^verbatim>\<open>restyle_msg_vs\<close> and \<^verbatim>\<open>ch\<close> is \<^verbatim>\<open>any_vals_changed\<close>.
\<close>

fun restyle_traces ::
  "pval list \<Rightarrow> pkey list \<Rightarrow> pval list \<Rightarrow> nat \<Rightarrow> int list \<Rightarrow> pval list \<Rightarrow> bool
     \<Rightarrow> pval list \<times> (error + pval list \<times> bool)" where
  "restyle_traces d key_path vs i [] acc ch = (d, Inr (acc, ch))"
| "restyle_traces d key_path vs i (trace_ind # ts) acc ch =
     (if trace_ind \<ge> int (length d) then (d, Inl (TraceIndexOutOfRange trace_ind))
      else case py_index d trace_ind of
        None \<Rightarrow> (d, Inl IndexError)
      | Some j \<Rightarrow>
          (case walk_path (restyle_leaf (cyclic vs i)) (d ! j) key_path of
             (tr, Inl e) \<Rightarrow> (d[j := tr], Inl e)
           | (tr, Inr (trace_v, c)) \<Rightarrow>
               restyle_traces (d[j := tr]) key_path vs (Suc i) ts (acc @ [trace_v]) (ch \<or> c)))"

text \<open>
  A Python \<^verbatim>\<open>dict\<close> that is iterated or sent (a style patch, a message) keeps its
  insertion order: an association list with \<^verbatim>\<open>d[k] = v\<close> as \<open>dict_set\<close>.
\<close>

fun dict_set :: "('k \<times> 'v) list \<Rightarrow> 'k \<Rightarrow> 'v \<Rightarrow> ('k \<times> 'v) list" where
  "dict_set [] k v = [(k, v)]"
| "dict_set ((k', v') # d) k v =
     (if k' = k then (k, v) # d else (k', v') # dict_set d k v)"

type_synonym style = "(string \<times> pval) list"

text \<open>
  \<^verbatim>\<open>trace_indexes\<close> as the callers pass it: nothing, one index, a list or a tuple.
  \<^verbatim>\<open>restyle\<close> and \<^verbatim>\<open>update\<close> turn the first two into a list.
\<close>

datatype idx_seq = AsList "int list" | AsTuple "int list"

datatype idx_arg = NoIndexes | OneIndex int | Indexes idx_seq

text \<open>
  \<^verbatim>\<open>_perform_restyle_dict\<close> (line 348) over \<^verbatim>\<open>style.items()\<close>; \<^verbatim>\<open>rd\<close> is
  \<^verbatim>\<open>restyle_data\<close>. Keys are \<^verbatim>\<open>str\<close>. A tuple of indexes is not a list, so line 351
  wraps it, and the comparison of line 374 between the tuple and an integer raises.
  The patch value is wrapped into a list (line 364) before the test for a dict
  (line 367).
\<close>

fun perform_restyle_items ::
  "pval list \<Rightarrow> style \<Rightarrow> idx_seq \<Rightarrow> style \<Rightarrow> pval list \<times> (error + style)" where
  "perform_restyle_items d [] trace_indexes rd = (d, Inr rd)"
| "perform_restyle_items d ((raw_key, v0) # items) trace_indexes rd =
     (let key_path = str_to_dict_path raw_key in
      if startswith_underscore raw_key
      then perform_restyle_items d items trace_indexes (dict_set rd raw_key v0)
      else
        let v = (if \<not> is_list v0 then PList [v0] else v0) in
        if is_dict v then (d, Inl RestyleObjectsNotSupported)
        else
          (case trace_indexes of
             AsTuple ts \<Rightarrow> (d, Inl TypeError)
           | AsList ts \<Rightarrow>
               (case restyle_traces d key_path (elems v) 0 ts [] False of
                  (d', Inl e) \<Rightarrow> (d', Inl e)
                | (d', Inr (restyle_msg_vs, any_vals_changed)) \<Rightarrow>
                    perform_restyle_items d' items trace_indexes
                      (if any_vals_changed then dict_set rd raw_key (PList restyle_msg_vs)
                       else rd))))"

definition perform_restyle_dict ::
  "pval list \<Rightarrow> style \<Rightarrow> idx_seq \<Rightarrow> pval list \<times> (error + style)" where
  "perform_restyle_dict d style trace_indexes = perform_restyle_items d style trace_indexes []"

section \<open>The figure\<close>

text \<open>
  Objects of the property tree are addresses into a heap; completion callbacks are
  opaque closures, named by a number. A message field that is written and then reset to
  \<^verbatim>\<open>None\<close> (\<^verbatim>\<open>self._py2js_restyle = restyle_msg; self._py2js_restyle = None\<close>) is one
  message appended to \<open>outbox\<close>.
\<close>

type_synonym addr = nat
type_synonym callback = nat

datatype msg =
    AddTraces "pval list"
  | DeleteTraces "nat list" int
  | MoveTraces "nat list" "nat list"
  | Restyle style "pval list"
  | Relayout style
  | Update style style "pval list"

text \<open>
  The fields of \<^verbatim>\<open>BaseFigureWidget\<close> that the modelled methods read or write, under
  their names without the leading underscore (\<open>fig_data\<close> is \<^verbatim>\<open>_data\<close>, \<open>fig_data_objs\<close>
  is \<^verbatim>\<open>_data_objs\<close>, the value of the \<^verbatim>\<open>data\<close> property). \<open>called\<close> lists the
  completion callbacks that were run.
\<close>

record figure =
  fig_data :: "pval list"
  fig_data_defaults :: "pval list"
  fig_data_objs :: "addr list"
  fig_layout :: pval
  fig_layout_defaults :: pval
  fig_layout_obj :: addr
  last_relayout_msg_id :: int
  last_restyle_msg_id :: int
  relayout_in_process :: bool
  waiting_relayout_callbacks :: "callback list"
  restyle_in_process :: bool
  waiting_restyle_callbacks :: "callback list"
  in_batch_mode :: bool
  batch_style_commands :: "(nat \<times> style) list"
  batch_layout_commands :: style
  outbox :: "msg list"
  called :: "callback list"

text \<open>
  \<^verbatim>\<open>if not isinstance(trace_indexes, (list, tuple)): trace_indexes = [trace_indexes]\<close>,
  as the sequence that goes into a message.
\<close>

fun idx_payload :: "idx_arg \<Rightarrow> pval list" where
  "idx_payload NoIndexes = [PNone]"
| "idx_payload (OneIndex t) = [PInt t]"
| "idx_payload (Indexes (AsList ts)) = map PInt ts"
| "idx_payload (Indexes (AsTuple ts)) = map PInt ts"

text \<open>\<^verbatim>\<open>_send_restyle_msg\<close> (line 469).\<close>

definition send_restyle_msg :: "figure \<Rightarrow> style \<Rightarrow> idx_arg \<Rightarrow> figure" where
  "send_restyle_msg fig style0 trace_indexes =
     (let relayout_msg_id = last_relayout_msg_id fig + 1;
          style1 = dict_set style0 ''_relayout_msg_id'' (PInt relayout_msg_id);
          restyle_msg_id = last_restyle_msg_id fig + 1;
          style2 = dict_set style1 ''_restyle_msg_id'' (PInt restyle_msg_id)
      in fig\<lparr> last_relayout_msg_id := relayout_msg_id,
              relayout_in_process := True,
              last_restyle_msg_id := restyle_msg_id,
              restyle_in_process := True,
              outbox := outbox fig @ [Restyle style2 (idx_payload trace_indexes)] \<rparr>)"

text \<open>
  \<^verbatim>\<open>_dispatch_change_callbacks_restyle\<close> (line 416) walks the trace objects and calls the
  change callbacks registered on them. The callbacks are closures of the caller and the
  walk asks the generated classes which properties they have; the model has no callback
  registered and keeps what can raise in the method itself, the lookups
  \<^verbatim>\<open>self.data[trace_ind]\<close> for every key of the style.
\<close>

definition dispatch_change_callbacks_restyle :: "figure \<Rightarrow> style \<Rightarrow> idx_seq \<Rightarrow> error option" where
  "dispatch_change_callbacks_restyle fig style trace_indexes =
     (if style = [] then None
      else case trace_indexes of
        AsTuple ts \<Rightarrow> Some TypeError
      | AsList ts \<Rightarrow>
          if list_ex (\<lambda>t. py_index (fig_data_objs fig) t = None) ts then Some IndexError
          else None)"

text \<open>\<^verbatim>\<open>restyle\<close> (line 336).\<close>

definition restyle :: "figure \<Rightarrow> style \<Rightarrow> idx_arg \<Rightarrow> figure \<times> (error + unit)" where
  "restyle fig style trace_indexes0 =
     (let trace_indexes =
            (case trace_indexes0 of
               NoIndexes \<Rightarrow> AsList (map int [0..<length (fig_data_objs fig)])
             | OneIndex t \<Rightarrow> AsList [t]
             | Indexes s \<Rightarrow> s)
      in case perform_restyle_dict (fig_data fig) style trace_indexes of
           (d, Inl e) \<Rightarrow> (fig\<lparr>fig_data := d\<rparr>, Inl e)
         | (d, Inr restyle_msg) \<Rightarrow>
             if restyle_msg \<noteq> [] then
               (case dispatch_change_callbacks_restyle (fig\<lparr>fig_data := d\<rparr>) restyle_msg
                       trace_indexes of
                  Some e \<Rightarrow> (fig\<lparr>fig_data := d\<rparr>, Inl e)
                | None \<Rightarrow>
                    (send_restyle_msg (fig\<lparr>fig_data := d\<rparr>) restyle_msg (Indexes trace_indexes),
                     Inr ()))
             else (fig\<lparr>fig_data := d\<rparr>, Inr ()))"

text \<open>
  \<^verbatim>\<open>on_relayout_completed\<close> and \<^verbatim>\<open>on_restyle_completed\<close> (lines 922 to 932): the
  callback waits while a message is in flight, and is called at once otherwise.
\<close>

definition on_relayout_completed :: "figure \<Rightarrow> callback \<Rightarrow> figure" where
  "on_relayout_completed fig fn =
     (if relayout_in_process fig
      then fig\<lparr>waiting_relayout_callbacks := waiting_relayout_callbacks fig @ [fn]\<rparr>
      else fig\<lparr>called := called fig @ [fn]\<rparr>)"

definition on_restyle_completed :: "figure \<Rightarrow> callback \<Rightarrow> figure" where
  "on_restyle_completed fig fn =
     (if restyle_in_process fig
      then fig\<lparr>waiting_restyle_callbacks := waiting_restyle_callbacks fig @ [fn]\<rparr>
      else fig\<lparr>called := called fig @ [fn]\<rparr>)"

text \<open>\<^verbatim>\<open>xs.index(x)\<close>: the first position of \<open>x\<close>, or a \<^verbatim>\<open>ValueError\<close>.\<close>

fun index_of :: "'a list \<Rightarrow> 'a \<Rightarrow> nat option" where
  "index_of [] x = None"
| "index_of (y # ys) x = (if y = x then Some 0 else map_option Suc (index_of ys x))"

text \<open>
  \<^verbatim>\<open>_restyle_child\<close> (line 492), called by a trace object after it wrote a property:
  outside a batch the write is sent at once, inside it is kept in
  \<^verbatim>\<open>_batch_style_commands\<close>.
\<close>

definition restyle_child :: "figure \<Rightarrow> addr \<Rightarrow> string \<Rightarrow> pval \<Rightarrow> figure \<times> (error + unit)" where
  "restyle_child fig child prop val =
     (case index_of (fig_data_objs fig) child of
        None \<Rightarrow> (fig, Inl NotInSequence)
      | Some trace_index \<Rightarrow>
          if \<not> in_batch_mode fig then
            (let restyle = [(prop, PList [val])] in
             case dispatch_change_callbacks_restyle fig restyle (AsList [int trace_index]) of
               Some e \<Rightarrow> (fig, Inl e)
             | None \<Rightarrow> (send_restyle_msg fig restyle (OneIndex (int trace_index)), Inr ()))
          else
            (let cmds = (if map_of (batch_style_commands fig) trace_index = None
                         then dict_set (batch_style_commands fig) trace_index []
                         else batch_style_commands fig);
                 trace_style = (case map_of cmds trace_index of None \<Rightarrow> [] | Some st \<Rightarrow> st)
             in (fig\<lparr>batch_style_commands :=
                       dict_set cmds trace_index (dict_set trace_style prop val)\<rparr>,
                 Inr ())))"

subsection \<open>Relayout\<close>

text \<open>
  \<^verbatim>\<open>key_path_el not in val_parent\<close> (line 698) is a key test on a dict, an element test
  on a list and a substring test on a \<^verbatim>\<open>str\<close>; other values are not iterable.
\<close>

fun is_prefix :: "'a list \<Rightarrow> 'a list \<Rightarrow> bool" where
  "is_prefix [] ys = True"
| "is_prefix (x # xs) [] = False"
| "is_prefix (x # xs) (y # ys) = (x = y \<and> is_prefix xs ys)"

fun is_substring :: "'a list \<Rightarrow> 'a list \<Rightarrow> bool" where
  "is_substring xs [] = (xs = [])"
| "is_substring xs (y # ys) = (is_prefix xs (y # ys) \<or> is_substring xs ys)"

fun contains :: "pval \<Rightarrow> pkey \<Rightarrow> error + bool" where
  "contains (PDict m) k = Inr (fmlookup m k \<noteq> None)"
| "contains (PList xs) (KInt k) = Inr (PInt k \<in> set xs)"
| "contains (PList xs) (KStr s) = Inr (PStr s \<in> set xs)"
| "contains (PStr t) (KStr s) = Inr (is_substring s t)"
| "contains v k = Inl TypeError"

text \<open>
  The walk of \<^verbatim>\<open>_perform_relayout_dict\<close> (lines 696 to 711): the containers are only
  padded or created when the segment is not in \<^verbatim>\<open>val_parent\<close>.
\<close>

fun relayout_walk ::
  "(pval \<Rightarrow> pkey \<Rightarrow> pval \<times> (error + 'r)) \<Rightarrow> pval \<Rightarrow> pkey list \<Rightarrow> pval \<times> (error + 'r)" where
  "relayout_walk leaf vp [] = (vp, Inl IndexError)"
| "relayout_walk leaf vp [last_key] = leaf vp last_key"
| "relayout_walk leaf vp (el # nxt # rest) =
     (case contains vp el of
        Inl e \<Rightarrow> (vp, Inl e)
      | Inr present \<Rightarrow>
          (let vp1 = (if present then vp else vivify vp el nxt) in
           case subscript vp1 el of
             Inl e \<Rightarrow> (vp1, Inl e)
           | Inr child \<Rightarrow>
               (case relayout_walk leaf child (nxt # rest) of
                  (child', r) \<Rightarrow> (store_back vp1 el child', r))))"

text \<open>Lines 713 to 733; the result says whether \<^verbatim>\<open>relayout_msg[raw_key]\<close> was set.\<close>

fun relayout_leaf :: "pval \<Rightarrow> pval \<Rightarrow> pkey \<Rightarrow> pval \<times> (error + bool)" where
  "relayout_leaf v vp last_key =
     (if v = PUndefined then (vp, Inr False)
      else if v = PNone then
        (case vp of
           PDict m \<Rightarrow>
             if fmlookup m last_key \<noteq> None then (PDict (fmdrop last_key m), Inr True)
             else (vp, Inr False)
         | _ \<Rightarrow> (vp, Inr False))
      else
        (case vp of
           PList xs \<Rightarrow>
             (case last_key of
                KInt k \<Rightarrow>
                  (let ys = extend_list xs k in
                   case py_index ys k of
                     None \<Rightarrow> (PList ys, Inl IndexError)
                   | Some j \<Rightarrow> (PList (ys[j := v]), Inr True))
              | KStr s \<Rightarrow> (vp, Inr False))
         | PDict m \<Rightarrow>
             (case fmlookup m last_key of
                None \<Rightarrow> (PDict (fmupd last_key v m), Inr True)
              | Some old \<Rightarrow>
                  if \<not> vals_equal old v then (PDict (fmupd last_key v m), Inr True)
                  else (vp, Inr False))
         | _ \<Rightarrow> (vp, Inr False)))"

text \<open>\<^verbatim>\<open>_perform_relayout_dict\<close> (line 687); \<open>lay\<close> is \<^verbatim>\<open>self._layout\<close>.\<close>

fun perform_relayout_items :: "pval \<Rightarrow> style \<Rightarrow> style \<Rightarrow> pval \<times> (error + style)" where
  "perform_relayout_items lay [] relayout_msg = (lay, Inr relayout_msg)"
| "perform_relayout_items lay ((raw_key, v) # items) relayout_msg =
     (case relayout_walk (relayout_leaf v) lay (str_to_dict_path raw_key) of
        (lay', Inl e) \<Rightarrow> (lay', Inl e)
      | (lay', Inr set_msg) \<Rightarrow>
          perform_relayout_items lay' items
            (if set_msg then dict_set relayout_msg raw_key v else relayout_msg))"

definition perform_relayout_dict :: "pval \<Rightarrow> style \<Rightarrow> pval \<times> (error + style)" where
  "perform_relayout_dict lay relayout_data = perform_relayout_items lay relayout_data []"

text \<open>
  \<^verbatim>\<open>_send_relayout_msg\<close> (line 651). \<^verbatim>\<open>_dispatch_change_callbacks_relayout\<close> (line 737)
  starts from the layout object, which always exists, and calls change callbacks; with no
  callback registered it leaves the figure as it is.
\<close>

definition send_relayout_msg :: "figure \<Rightarrow> style \<Rightarrow> figure" where
  "send_relayout_msg fig layout0 =
     (let msg_id = last_relayout_msg_id fig + 1;
          layout1 = dict_set layout0 ''_relayout_msg_id'' (PInt msg_id)
      in fig\<lparr> last_relayout_msg_id := msg_id, outbox := outbox fig @ [Relayout layout1] \<rparr>)"

text \<open>\<^verbatim>\<open>relayout\<close> (line 681).\<close>

definition relayout :: "figure \<Rightarrow> style \<Rightarrow> figure \<times> (error + unit)" where
  "relayout fig layout0 =
     (case perform_relayout_dict (fig_layout fig) layout0 of
        (lay, Inl e) \<Rightarrow> (fig\<lparr>fig_layout := lay\<rparr>, Inl e)
      | (lay, Inr relayout_msg) \<Rightarrow>
          if relayout_msg \<noteq> [] then (send_relayout_msg (fig\<lparr>fig_layout := lay\<rparr>) relayout_msg, Inr ())
          else (fig\<lparr>fig_layout := lay\<rparr>, Inr ()))"

text \<open>\<^verbatim>\<open>_relayout_child\<close> (line 641).\<close>

definition relayout_child :: "figure \<Rightarrow> addr \<Rightarrow> string \<Rightarrow> pval \<Rightarrow> figure" where
  "relayout_child fig child prop val =
     (if \<not> in_batch_mode fig then send_relayout_msg fig [(prop, val)]
      else fig\<lparr>batch_layout_commands := dict_set (batch_layout_commands fig) prop val\<rparr>)"

subsection \<open>Update and the batch context\<close>

text \<open>\<^verbatim>\<open>_send_update_msg\<close> (line 824).\<close>

definition send_update_msg :: "figure \<Rightarrow> style \<Rightarrow> style \<Rightarrow> idx_arg \<Rightarrow> figure" where
  "send_update_msg fig style0 layout0 trace_indexes =
     (let restyle_msg_id = last_restyle_msg_id fig + 1;
          style1 = dict_set style0 ''_restyle_msg_id'' (PInt restyle_msg_id);
          relayout_msg_id = last_relayout_msg_id fig + 1;
          layout1 = dict_set layout0 ''_relayout_msg_id'' (PInt relayout_msg_id)
      in fig\<lparr> last_restyle_msg_id := restyle_msg_id,
              restyle_in_process := True,
              last_relayout_msg_id := relayout_msg_id,
              relayout_in_process := True,
              outbox := outbox fig @ [Update style1 layout1 (idx_payload trace_indexes)] \<rparr>)"

text \<open>
  \<^verbatim>\<open>update\<close> with \<^verbatim>\<open>_perform_update_dict\<close> (lines 784 to 821): a style or a layout that is
  \<^verbatim>\<open>None\<close> or empty is falsy, and with both falsy nothing is done.
\<close>

definition falsy :: "style option \<Rightarrow> bool" where
  "falsy st = (case st of None \<Rightarrow> True | Some d \<Rightarrow> d = [])"

definition update :: "figure \<Rightarrow> style option \<Rightarrow> style option \<Rightarrow> idx_arg \<Rightarrow> figure \<times> (error + unit)" where
  "update fig style0 layout0 trace_indexes0 =
     (if falsy style0 \<and> falsy layout0 then (fig, Inr ())
      else
        let style = (case style0 of None \<Rightarrow> [] | Some d \<Rightarrow> d);
            layout1 = (case layout0 of None \<Rightarrow> [] | Some d \<Rightarrow> d);
            trace_indexes =
              (case trace_indexes0 of
                 NoIndexes \<Rightarrow> AsList (map int [0..<length (fig_data_objs fig)])
               | OneIndex t \<Rightarrow> AsList [t]
               | Indexes s \<Rightarrow> s)
        in case perform_relayout_dict (fig_layout fig) layout1 of
             (lay, Inl e) \<Rightarrow> (fig\<lparr>fig_layout := lay\<rparr>, Inl e)
           | (lay, Inr relayout_msg) \<Rightarrow>
               (case perform_restyle_dict (fig_data fig) style trace_indexes of
                  (d, Inl e) \<Rightarrow> (fig\<lparr>fig_layout := lay, fig_data := d\<rparr>, Inl e)
                | (d, Inr restyle_msg) \<Rightarrow>
                    (let fig1 = fig\<lparr>fig_layout := lay, fig_data := d\<rparr> in
                     case dispatch_change_callbacks_restyle fig1 restyle_msg trace_indexes of
                       Some e \<Rightarrow> (fig1, Inl e)
                     | None \<Rightarrow>
                         if restyle_msg \<noteq> [] \<or> relayout_msg \<noteq> []
                         then (send_update_msg fig1 restyle_msg relayout_msg
                                 (Indexes trace_indexes), Inr ())
                         else (fig1, Inr ()))))"

text \<open>
  \<^verbatim>\<open>_build_update_params_from_batch\<close> (line 949): the touched trace indexes and the
  touched properties, both sorted, and per property one value per touched trace,
  \<^verbatim>\<open>Undefined\<close> where the trace has no write for it.
\<close>

definition build_update_params_from_batch :: "figure \<Rightarrow> style \<times> style \<times> nat list" where
  "build_update_params_from_batch fig =
     (let cmds = batch_style_commands fig;
          trace_indexes = sort (remdups (map fst cmds));
          all_props = sort (remdups (concat (map (\<lambda>(t, trace_style). map fst trace_style) cmds)));
          style =
            map (\<lambda>prop.
                   (prop,
                    PList (map (\<lambda>t. case map_of cmds t of
                                       None \<Rightarrow> PUndefined
                                     | Some trace_style \<Rightarrow>
                                         (case map_of trace_style prop of
                                            None \<Rightarrow> PUndefined
                                          | Some trace_val \<Rightarrow> trace_val))
                               trace_indexes)))
                all_props
      in (style, batch_layout_commands fig, trace_indexes))"

text \<open>\<^verbatim>\<open>_send_batch_update\<close> (line 974); an exception of \<^verbatim>\<open>update\<close> skips the two clears.\<close>

definition send_batch_update :: "figure \<Rightarrow> figure \<times> (error + unit)" where
  "send_batch_update fig =
     (case build_update_params_from_batch fig of
        (style, layout0, trace_indexes) \<Rightarrow>
          (case update fig (Some style) (Some layout0) (Indexes (AsList (map int trace_indexes))) of
             (fig1, Inl e) \<Rightarrow> (fig1, Inl e)
           | (fig1, Inr u) \<Rightarrow>
               (fig1\<lparr>batch_layout_commands := [], batch_style_commands := []\<rparr>, Inr ())))"

section \<open>Objects of the property tree\<close>

text \<open>
  A \<^verbatim>\<open>BasePlotlyType\<close> object (line 1399) with the fields its methods use. Its parent is
  the figure or another object; \<^verbatim>\<open>_compound_props\<close> holds one child or a tuple of
  children per compound property. \<^verbatim>\<open>_subplotid_props\<close> exists on layout objects.
  A validator is an instance of a generated class, known here by the name of its class
  and its \<^verbatim>\<open>prop_name\<close>.
\<close>

datatype parent_ref = ParentFigure | ParentObj addr

datatype child_ref = Child addr | Children "addr list"

datatype validator = Validator string string

record pobj =
  obj_name :: string
  obj_validators :: "(string \<times> validator) list"
  obj_compound_props :: "(string \<times> child_ref) list"
  obj_orphan_props :: "(pkey, pval) fmap"
  obj_parent :: "parent_ref option"
  obj_subplotid_props :: "(string \<times> addr option) list"

record world =
  wfig :: figure
  heap :: "addr \<Rightarrow> pobj"

text \<open>
  Python gives up on a chain of calls that is deeper than its recursion limit; the walks
  up the parent chain carry that limit as fuel.
\<close>

definition recursion_limit :: nat where
  "recursion_limit = 1000"

text \<open>\<^verbatim>\<open>self_props.get(name, None)\<close>, a method of dicts only.\<close>

fun dict_get :: "pval \<Rightarrow> pkey \<Rightarrow> error + pval option" where
  "dict_get (PDict m) k = Inr (fmlookup m k)"
| "dict_get v k = Inl AttributeError"

text \<open>
  \<^verbatim>\<open>children_props[child_ind] if children_props is not None and
  len(children_props) > child_ind else None\<close> (line 1502).
\<close>

fun nth_or_none :: "pval option \<Rightarrow> nat \<Rightarrow> error + pval option" where
  "nth_or_none None i = Inr None"
| "nth_or_none (Some PNone) i = Inr None"
| "nth_or_none (Some (PList xs)) i = Inr (if length xs > i then Some (xs ! i) else None)"
| "nth_or_none (Some (PStr s)) i = Inr (if length s > i then Some (PStr [s ! i]) else None)"
| "nth_or_none (Some (PDict m)) i =
     (if size (fmdom m) > i
      then (case fmlookup m (KInt (int i)) of
              None \<Rightarrow> Inl (KeyError (KInt (int i)))
            | Some v \<Rightarrow> Inr (Some v))
      else Inr None)"
| "nth_or_none (Some v) i = Inl TypeError"

text \<open>
  \<^verbatim>\<open>_get_child_props\<close>: of the figure (line 556) and of an object (line 1491), which
  asks its own parent first and does not test that it has one. In line 1506 the
  \<^verbatim>\<open>ValueError\<close> is built and not raised, so the method returns \<^verbatim>\<open>None\<close>.
\<close>

fun get_child_props :: "nat \<Rightarrow> world \<Rightarrow> parent_ref \<Rightarrow> addr \<Rightarrow> error + pval option" where
  "get_child_props 0 w p child = Inl RecursionError"
| "get_child_props (Suc n) w ParentFigure child =
     (case index_of (fig_data_objs (wfig w)) child of
        Some trace_index \<Rightarrow>
          if trace_index < length (fig_data (wfig w))
          then Inr (Some (fig_data (wfig w) ! trace_index)) else Inl IndexError
      | None \<Rightarrow>
          if child = fig_layout_obj (wfig w) then Inr (Some (fig_layout (wfig w)))
          else Inl UnrecognizedChild)"
| "get_child_props (Suc n) w (ParentObj self) child =
     (case obj_parent (heap w self) of
        None \<Rightarrow> Inl AttributeError
      | Some pp \<Rightarrow>
          (case get_child_props n w pp self of
             Inl e \<Rightarrow> Inl e
           | Inr None \<Rightarrow> Inr None
           | Inr (Some self_props) \<Rightarrow>
               (case map_of (obj_compound_props (heap w self)) (obj_name (heap w child)) of
                  None \<Rightarrow> Inl (KeyError (KStr (obj_name (heap w child))))
                | Some (Child c) \<Rightarrow>
                    if c = child then dict_get self_props (KStr (obj_name (heap w child)))
                    else Inr None
                | Some (Children cs) \<Rightarrow>
                    (case index_of cs child of
                       None \<Rightarrow> Inl NotInSequence
                     | Some child_ind \<Rightarrow>
                         (case dict_get self_props (KStr (obj_name (heap w child))) of
                            Inl e \<Rightarrow> Inl e
                          | Inr children_props \<Rightarrow> nth_or_none children_props child_ind)))))"

text \<open>The property \<^verbatim>\<open>_props\<close> (line 1456).\<close>

definition props_of :: "world \<Rightarrow> addr \<Rightarrow> error + pval option" where
  "props_of w a =
     (case obj_parent (heap w a) of
        None \<Rightarrow> Inr (Some (PDict (obj_orphan_props (heap w a))))
      | Some p \<Rightarrow> get_child_props recursion_limit w p a)"

text \<open>
  \<^verbatim>\<open>_get_child_prop_defaults\<close>: of the figure (line 569) and of an object (line 1515,
  where line 1529 does not test the length), and the property \<^verbatim>\<open>_prop_defaults\<close>.
\<close>

fun nth_unchecked :: "pval option \<Rightarrow> nat \<Rightarrow> error + pval option" where
  "nth_unchecked None i = Inr None"
| "nth_unchecked (Some PNone) i = Inr None"
| "nth_unchecked (Some (PList xs)) i = (if i < length xs then Inr (Some (xs ! i)) else Inl IndexError)"
| "nth_unchecked (Some (PStr s)) i = (if i < length s then Inr (Some (PStr [s ! i])) else Inl IndexError)"
| "nth_unchecked (Some (PDict m)) i =
     (case fmlookup m (KInt (int i)) of
        None \<Rightarrow> Inl (KeyError (KInt (int i)))
      | Some v \<Rightarrow> Inr (Some v))"
| "nth_unchecked (Some v) i = Inl TypeError"

fun get_child_prop_defaults :: "nat \<Rightarrow> world \<Rightarrow> parent_ref \<Rightarrow> addr \<Rightarrow> error + pval option" where
  "get_child_prop_defaults 0 w p child = Inl RecursionError"
| "get_child_prop_defaults (Suc n) w ParentFigure child =
     (case index_of (fig_data_objs (wfig w)) child of
        Some trace_index \<Rightarrow>
          if trace_index < length (fig_data_defaults (wfig w))
          then Inr (Some (fig_data_defaults (wfig w) ! trace_index)) else Inl IndexError
      | None \<Rightarrow>
          if child = fig_layout_obj (wfig w) then Inr (Some (fig_layout_defaults (wfig w)))
          else Inl UnrecognizedChild)"
| "get_child_prop_defaults (Suc n) w (ParentObj self) child =
     (case obj_parent (heap w self) of
        None \<Rightarrow> Inr None
      | Some pp \<Rightarrow>
          (case get_child_prop_defaults n w pp self of
             Inl e \<Rightarrow> Inl e
           | Inr None \<Rightarrow> Inr None
           | Inr (Some self_prop_defaults) \<Rightarrow>
               (case map_of (obj_compound_props (heap w self)) (obj_name (heap w child)) of
                  None \<Rightarrow> Inl (KeyError (KStr (obj_name (heap w child))))
                | Some (Child c) \<Rightarrow>
                    if c = child then dict_get self_prop_defaults (KStr (obj_name (heap w child)))
                    else Inr None
                | Some (Children cs) \<Rightarrow>
                    (case index_of cs child of
                       None \<Rightarrow> Inl NotInSequence
                     | Some child_ind \<Rightarrow>
                         (case dict_get self_prop_defaults (KStr (obj_name (heap w child))) of
                            Inl e \<Rightarrow> Inl e
                          | Inr children_props \<Rightarrow> nth_unchecked children_props child_ind)))))"

definition prop_defaults_of :: "world \<Rightarrow> addr \<Rightarrow> error + pval option" where
  "prop_defaults_of w a =
     (case obj_parent (heap w a) of
        None \<Rightarrow> Inr None
      | Some p \<Rightarrow> get_child_prop_defaults recursion_limit w p a)"

text \<open>
  \<^verbatim>\<open>__getitem__\<close> (line 1537) for the name of a simple property: the stored value, else
  the default the front end reported, else \<^verbatim>\<open>None\<close>. \<^verbatim>\<open>prop in self._props\<close> is a key
  test when the properties are a dict; the model raises for anything else.
\<close>

definition getitem_simple :: "world \<Rightarrow> addr \<Rightarrow> string \<Rightarrow> error + pval" where
  "getitem_simple w a prop =
     (if map_of (obj_validators (heap w a)) prop = None then Inl (KeyError (KStr prop))
      else case props_of w a of
        Inl e \<Rightarrow> Inl e
      | Inr props \<Rightarrow>
          (case (case props of
                   None \<Rightarrow> Inr None
                 | Some (PDict m) \<Rightarrow> Inr (fmlookup m (KStr prop))
                 | Some v \<Rightarrow> Inl TypeError) of
             Inl e \<Rightarrow> Inl e
           | Inr (Some v) \<Rightarrow> Inr v
           | Inr None \<Rightarrow>
               (case prop_defaults_of w a of
                  Inl e \<Rightarrow> Inl e
                | Inr None \<Rightarrow> Inr PNone
                | Inr (Some dflts) \<Rightarrow>
                    (case dict_get dflts (KStr prop) of
                       Inl e \<Rightarrow> Inl e
                     | Inr None \<Rightarrow> Inr PNone
                     | Inr (Some v) \<Rightarrow> Inr v))))"

text \<open>
  Modelled from the spec: the \<^verbatim>\<open>uid\<close> property of the generated trace classes
  (\<^verbatim>\<open>BaseTraceType.uid\<close>, line 1859, raises \<^verbatim>\<open>NotImplementedError\<close> and the classes that
  override it are not among the sources). Reading a property by name returns the stored
  value, else the recorded default, else nothing: the read of the simple property
  \<^verbatim>\<open>uid\<close> through \<^verbatim>\<open>__getitem__\<close>.
\<close>

definition trace_uid :: "world \<Rightarrow> addr \<Rightarrow> error + pval" where
  "trace_uid w a = getitem_simple w a ''uid''"

section \<open>Assigning the traces of a figure\<close>

text \<open>A list comprehension whose element expression can raise.\<close>

fun map_result :: "('a \<Rightarrow> error + 'b) \<Rightarrow> 'a list \<Rightarrow> error + 'b list" where
  "map_result f [] = Inr []"
| "map_result f (x # xs) =
     (case f x of
        Inl e \<Rightarrow> Inl e
      | Inr y \<Rightarrow> (case map_result f xs of Inl e \<Rightarrow> Inl e | Inr ys \<Rightarrow> Inr (y # ys)))"

text \<open>\<^verbatim>\<open>set(...)\<close> and \<^verbatim>\<open>collections.Counter(...)\<close> hash their elements.\<close>

fun hashable :: "pval \<Rightarrow> bool" where
  "hashable (PList xs) = False"
| "hashable (PDict m) = False"
| "hashable v = True"

text \<open>The distinct elements in the order of their first occurrence.\<close>

fun uniq :: "'a list \<Rightarrow> 'a list" where
  "uniq [] = []"
| "uniq (x # xs) = x # filter (\<lambda>y. y \<noteq> x) (uniq xs)"

text \<open>
  Lines 258 to 265: every trace whose uid is not assigned any more is recorded in
  \<^verbatim>\<open>delete_inds\<close>, keeps a copy of its properties as orphan properties and loses its
  parent. \<open>i\<close> is the position in \<^verbatim>\<open>self._data\<close>, \<open>us\<close> the uids from there on.
\<close>

fun unparent_removed ::
  "world \<Rightarrow> pval list \<Rightarrow> pval list \<Rightarrow> nat \<Rightarrow> nat list \<Rightarrow> world \<times> (error + nat list)" where
  "unparent_removed w [] new_uids i delete_inds = (w, Inr delete_inds)"
| "unparent_removed w (u # us) new_uids i delete_inds =
     (if u \<in> set new_uids then unparent_removed w us new_uids (Suc i) delete_inds
      else if i \<ge> length (fig_data_objs (wfig w)) then (w, Inl IndexError)
      else
        let old_trace = fig_data_objs (wfig w) ! i in
        case props_of w old_trace of
          Inl e \<Rightarrow> (w, Inl e)
        | Inr (Some (PDict m)) \<Rightarrow>
            unparent_removed
              (w\<lparr>heap := (heap w)(old_trace := (heap w old_trace)
                   \<lparr>obj_orphan_props := obj_orphan_props (heap w old_trace) ++\<^sub>f m,
                    obj_parent := None\<rparr>)\<rparr>)
              us new_uids (Suc i) (delete_inds @ [i])
        | Inr v \<Rightarrow> (w, Inl TypeError))"

text \<open>\<^verbatim>\<open>for i in reversed(delete_inds): del xs[i]\<close> for increasing \<^verbatim>\<open>delete_inds\<close>.\<close>

definition delete_all :: "nat list \<Rightarrow> 'a list \<Rightarrow> error + 'a list" where
  "delete_all delete_inds xs =
     (if list_ex (\<lambda>i. i \<ge> length xs) delete_inds then Inl IndexError
      else Inr (map snd (filter (\<lambda>(i, x). i \<notin> set delete_inds) (zip [0..<length xs] xs))))"

text \<open>
  \<^verbatim>\<open>sorted(zip(new_inds, xs))\<close>: pairs are ordered by their index; where two indexes
  are equal Python goes on to compare the second components, and two different dicts
  have no order.
\<close>

definition py_sorted :: "(nat \<times> pval) list \<Rightarrow> error + (nat \<times> pval) list" where
  "py_sorted ps =
     (if list_ex (\<lambda>p. list_ex (\<lambda>q. fst p = fst q \<and> snd p \<noteq> snd q) ps) ps then Inl TypeError
      else Inr (sort_key fst ps))"

text \<open>\<^verbatim>\<open>xs.insert(i, x)\<close> for \<open>i \<ge> 0\<close>: past the end it appends.\<close>

definition py_insert :: "'a list \<Rightarrow> nat \<Rightarrow> 'a \<Rightarrow> 'a list" where
  "py_insert xs i x = take i xs @ x # drop i xs"

text \<open>
  The setter of \<^verbatim>\<open>data\<close> (line 233) in its three stretches. \<open>new_data\<close> is the
  assigned sequence of trace objects. First the validation, lines 237 to 253, which
  yields \<^verbatim>\<open>orig_uids\<close> (\<open>mirror_uids\<close>, line 237) and \<^verbatim>\<open>new_uids\<close>.
\<close>

definition mirror_uids :: "figure \<Rightarrow> error + pval list" where
  "mirror_uids fig = map_result (\<lambda>t. subscript t (KStr ''uid'')) (fig_data fig)"

definition validate_new_data :: "world \<Rightarrow> addr list \<Rightarrow> error + pval list \<times> pval list" where
  "validate_new_data w new_data =
     (case mirror_uids (wfig w) of
        Inl e \<Rightarrow> Inl e
      | Inr orig_uids \<Rightarrow>
          (case map_result (trace_uid w) new_data of
             Inl e \<Rightarrow> Inl e
           | Inr new_uids \<Rightarrow>
               if \<not> list_all hashable new_uids \<or> \<not> list_all hashable orig_uids then Inl TypeError
               else
                 let invalid_uids = uniq (filter (\<lambda>u. u \<notin> set orig_uids) new_uids) in
                 if invalid_uids \<noteq> [] then Inl (InvalidTraces invalid_uids)
                 else
                   let duplicate_uids = filter (\<lambda>u. count_list new_uids u > 1) (uniq new_uids) in
                   if duplicate_uids \<noteq> [] then Inl (DuplicateTraces duplicate_uids)
                   else Inr (orig_uids, new_uids)))"

text \<open>
  Lines 277 to 291: the delete message, sent when a trace was removed. The key of the
  message id in the message ends in a space.
\<close>

definition send_delete_traces :: "figure \<Rightarrow> nat list \<Rightarrow> pval list \<Rightarrow> figure" where
  "send_delete_traces fig delete_inds traces_props_post_removal =
     (if delete_inds \<noteq> [] then
        fig\<lparr> last_relayout_msg_id := last_relayout_msg_id fig + 1,
             relayout_in_process := True,
             fig_data := traces_props_post_removal,
             outbox := outbox fig @ [DeleteTraces delete_inds (last_relayout_msg_id fig + 1)] \<rparr>
      else fig)"

text \<open>
  Lines 293 to 334: the move message, sent when \<^verbatim>\<open>new_inds\<close> is not
  \<^verbatim>\<open>current_inds\<close>, the reordering of \<^verbatim>\<open>self._data\<close> in place, and the two final
  assignments. After a move \<^verbatim>\<open>new_inds\<close> names the sorted indexes (line 324), and line
  333 sorts the defaults by those.
\<close>

definition move_traces ::
  "figure \<Rightarrow> nat list \<Rightarrow> pval list \<Rightarrow> addr list \<Rightarrow> figure \<times> (error + unit)" where
  "move_traces fig new_inds traces_prop_defaults_post_removal new_data =
     (let current_inds = [0..<length (fig_data fig)] in
      if \<not> list_all (\<lambda>(i1, i2). i1 = i2) (zip new_inds current_inds) then
        (let fig1 = fig\<lparr>outbox := outbox fig @ [MoveTraces current_inds new_inds]\<rparr> in
         case py_sorted (zip new_inds (fig_data fig1)) of
           Inl e \<Rightarrow> (fig1\<lparr>fig_data := []\<rparr>, Inl e)
         | Inr sorted_pairs \<Rightarrow>
             (let fig2 = fig1\<lparr>fig_data :=
                           foldl (\<lambda>d (ni, trace_data). py_insert d ni trace_data) [] sorted_pairs\<rparr>
              in case py_sorted (zip (map fst sorted_pairs) traces_prop_defaults_post_removal) of
                   Inl e \<Rightarrow> (fig2, Inl e)
                 | Inr sorted_defaults \<Rightarrow>
                     (fig2\<lparr>fig_data_defaults := map snd sorted_defaults,
                           fig_data_objs := new_data\<rparr>, Inr ())))
      else
        (case py_sorted (zip new_inds traces_prop_defaults_post_removal) of
           Inl e \<Rightarrow> (fig, Inl e)
         | Inr sorted_defaults \<Rightarrow>
             (fig\<lparr>fig_data_defaults := map snd sorted_defaults,
                  fig_data_objs := new_data\<rparr>, Inr ())))"

definition data_setter :: "world \<Rightarrow> addr list \<Rightarrow> world \<times> (error + unit)" where
  "data_setter w new_data =
     (case validate_new_data w new_data of
        Inl e \<Rightarrow> (w, Inl e)
      | Inr (orig_uids, new_uids) \<Rightarrow>
          (case unparent_removed w orig_uids new_uids 0 [] of
             (w1, Inl e) \<Rightarrow> (w1, Inl e)
           | (w1, Inr delete_inds) \<Rightarrow>
               (case delete_all delete_inds (fig_data (wfig w1)) of
                  Inl e \<Rightarrow> (w1, Inl e)
                | Inr traces_props_post_removal \<Rightarrow>
                    (case delete_all delete_inds (fig_data_defaults (wfig w1)) of
                       Inl e \<Rightarrow> (w1, Inl e)
                     | Inr traces_prop_defaults_post_removal \<Rightarrow>
                         (case delete_all delete_inds orig_uids of
                            Inl e \<Rightarrow> (w1, Inl e)
                          | Inr orig_uids_post_removal \<Rightarrow>
                              (let fig2 = send_delete_traces (wfig w1) delete_inds
                                            traces_props_post_removal in
                               case map_result
                                      (\<lambda>uid. case index_of new_uids uid of
                                               None \<Rightarrow> Inl NotInSequence
                                             | Some i \<Rightarrow> Inr i)
                                      orig_uids_post_removal of
                                 Inl e \<Rightarrow> (w1\<lparr>wfig := fig2\<rparr>, Inl e)
                               | Inr new_inds \<Rightarrow>
                                   (case move_traces fig2 new_inds
                                           traces_prop_defaults_post_removal new_data of
                                      (fig3, r) \<Rightarrow> (w1\<lparr>wfig := fig3\<rparr>, r))))))))"

text \<open>
  What the figure keeps true of its traces between calls: the mirror and the sequence of
  trace objects have one entry per trace in the same order, no object appears twice, every
  trace object has the figure as its parent and knows the property \<^verbatim>\<open>uid\<close>, and the
  uids in the mirror are hashable and differ from each other.
\<close>

definition traces_in_step :: "world \<Rightarrow> bool" where
  "traces_in_step w =
     (length (fig_data (wfig w)) = length (fig_data_objs (wfig w))
      \<and> distinct (fig_data_objs (wfig w))
      \<and> list_all (\<lambda>t. obj_parent (heap w t) = Some ParentFigure
                        \<and> map_of (obj_validators (heap w t)) ''uid'' \<noteq> None)
            (fig_data_objs (wfig w))
      \<and> (case mirror_uids (wfig w) of
            Inl e \<Rightarrow> False
          | Inr uids \<Rightarrow> distinct uids \<and> list_all hashable uids))"

section \<open>Adding traces, and the batch context\<close>

text \<open>
  Lines 541 to 543 of \<^verbatim>\<open>add_traces\<close>: the message ids are written into every new
  trace dict in turn; an entry that is not a dict stops the loop.
\<close>

fun stamp_all :: "pval list \<Rightarrow> int \<Rightarrow> int \<Rightarrow> pval list \<times> error option" where
  "stamp_all [] relayout_msg_id restyle_msg_id = ([], None)"
| "stamp_all (PDict m # ts) relayout_msg_id restyle_msg_id =
     (case stamp_all ts relayout_msg_id restyle_msg_id of
        (ts', r) \<Rightarrow>
          (PDict (fmupd (KStr ''_restyle_msg_id'') (PInt restyle_msg_id)
                    (fmupd (KStr ''_relayout_msg_id'') (PInt relayout_msg_id) m)) # ts', r))"
| "stamp_all (t # ts) relayout_msg_id restyle_msg_id = (t # ts, Some TypeError)"

text \<open>
  \<^verbatim>\<open>add_traces\<close> (line 506). The traces validator is not among the sources and is a
  parameter: it turns what the caller passed into trace objects, or refuses it. The
  dicts appended to \<^verbatim>\<open>self._data\<close> are the ones that are stamped and sent.
\<close>

definition add_traces ::
  "(world \<Rightarrow> 'raw \<Rightarrow> world \<times> (error + addr list)) \<Rightarrow> world \<Rightarrow> 'raw
     \<Rightarrow> world \<times> (error + addr list)" where
  "add_traces validate_coerce w data0 =
     (if in_batch_mode (wfig w) then
        (w\<lparr>wfig := (wfig w)\<lparr>batch_layout_commands := [], batch_style_commands := []\<rparr>\<rparr>,
         Inl TracesAddedInBatch)
      else
        case validate_coerce w data0 of
          (w1, Inl e) \<Rightarrow> (w1, Inl e)
        | (w1, Inr data) \<Rightarrow>
            (case map_result (props_of w1) data of
               Inl e \<Rightarrow> (w1, Inl e)
             | Inr new_props \<Rightarrow>
                 (let new_traces_data = map (\<lambda>p. case p of None \<Rightarrow> PNone | Some v \<Rightarrow> v) new_props;
                      heap2 = foldl (\<lambda>h trace. h(trace := (h trace)
                                \<lparr>obj_parent := Some ParentFigure, obj_orphan_props := fmempty\<rparr>))
                                (heap w1) data;
                      fig1 = wfig w1;
                      relayout_msg_id = last_relayout_msg_id fig1 + 1;
                      restyle_msg_id = last_restyle_msg_id fig1 + 1
                  in case stamp_all new_traces_data relayout_msg_id restyle_msg_id of
                       (stamped, r) \<Rightarrow>
                         (let fig2 = fig1\<lparr> fig_data := fig_data fig1 @ stamped,
                                           fig_data_defaults := fig_data_defaults fig1
                                             @ map (\<lambda>trace. PDict fmempty) data,
                                           fig_data_objs := fig_data_objs fig1 @ data,
                                           last_relayout_msg_id := relayout_msg_id,
                                           relayout_in_process := True,
                                           last_restyle_msg_id := restyle_msg_id,
                                           restyle_in_process := True \<rparr>
                          in case r of
                               Some e \<Rightarrow> (w1\<lparr>wfig := fig2, heap := heap2\<rparr>, Inl e)
                             | None \<Rightarrow>
                                 (w1\<lparr>wfig := fig2\<lparr>outbox := outbox fig2 @ [AddTraces stamped]\<rparr>,
                                     heap := heap2\<rparr>, Inr data)))))"

text \<open>
  The context manager \<^verbatim>\<open>batch_update\<close> (line 937) around a body: a nested entry only
  runs the body; the outermost one sets the flag, and its \<^verbatim>\<open>finally\<close> resets the flag
  and flushes, whether the body raised or not.
\<close>

definition batch_update ::
  "world \<Rightarrow> (world \<Rightarrow> world \<times> (error + unit)) \<Rightarrow> world \<times> (error + unit)" where
  "batch_update w body =
     (if in_batch_mode (wfig w) then body w
      else
        case body (w\<lparr>wfig := (wfig w)\<lparr>in_batch_mode := True\<rparr>\<rparr>) of
          (w1, r) \<Rightarrow>
            (case send_batch_update ((wfig w1)\<lparr>in_batch_mode := False\<rparr>) of
               (fig2, Inl e) \<Rightarrow> (w1\<lparr>wfig := fig2\<rparr>, Inl e)
             | (fig2, Inr u) \<Rightarrow> (w1\<lparr>wfig := fig2\<rparr>, r)))"

text \<open>
  Statements run one after the other, and an exception ends the run. A write of a simple
  property on a trace inside a batch reaches the figure as \<^verbatim>\<open>_restyle_child\<close>
  (\<^verbatim>\<open>_set_prop\<close>, line 1602, leaves the stored properties alone while the batch is open).
\<close>

definition and_then ::
  "(world \<Rightarrow> world \<times> (error + 'a)) \<Rightarrow> (world \<Rightarrow> world \<times> (error + 'b))
     \<Rightarrow> world \<Rightarrow> world \<times> (error + 'b)" where
  "and_then f g w = (case f w of (w1, Inl e) \<Rightarrow> (w1, Inl e) | (w1, Inr x) \<Rightarrow> g w1)"

definition restyle_child_in :: "addr \<Rightarrow> string \<Rightarrow> pval \<Rightarrow> world \<Rightarrow> world \<times> (error + unit)" where
  "restyle_child_in child prop val w =
     (case restyle_child (wfig w) child prop val of (fig, r) \<Rightarrow> (w\<lparr>wfig := fig\<rparr>, r))"

definition discard_result :: "world \<times> (error + 'a) \<Rightarrow> world \<times> (error + unit)" where
  "discard_result r = (case r of (w, Inl e) \<Rightarrow> (w, Inl e) | (w, Inr x) \<Rightarrow> (w, Inr ()))"

section \<open>Notions for stating the properties of restyle\<close>

text \<open>
  The position in \<^verbatim>\<open>self._data\<close> that a trace index names, the value found by
  subscripting along a key path, and two conditions on key paths: no negative list
  index, and no path that starts with another one.
\<close>

definition pos_of :: "'a list \<Rightarrow> int \<Rightarrow> nat" where
  "pos_of d t = (if t < 0 then nat (t + int (length d)) else nat t)"









section \<open>Compound properties and the subplot properties of the layout\<close>

text \<open>\<^verbatim>\<open>not v\<close> on a value; the sentinel \<^verbatim>\<open>Undefined\<close> is an object and is true.\<close>

fun py_not :: "pval \<Rightarrow> bool" where
  "py_not PNone = True"
| "py_not PUndefined = False"
| "py_not (PInt n) = (n = 0)"
| "py_not (PStr s) = (s = [])"
| "py_not (PList xs) = (xs = [])"
| "py_not (PDict m) = (m = fmempty)"

text \<open>\<^verbatim>\<open>None\<close> for a missing dict of properties.\<close>

fun opt_val :: "pval option \<Rightarrow> pval" where
  "opt_val None = PNone"
| "opt_val (Some v) = v"

text \<open>
  The property \<^verbatim>\<open>_in_batch_mode\<close> (line 1575),
  \<^verbatim>\<open>self.parent and self.parent._in_batch_mode\<close>: an object without a parent is not in a
  batch, any other object asks its parent, and the figure answers with its flag.
\<close>

fun in_batch_mode_of :: "nat \<Rightarrow> world \<Rightarrow> addr \<Rightarrow> error + bool" where
  "in_batch_mode_of 0 w a = Inl RecursionError"
| "in_batch_mode_of (Suc n) w a =
     (case obj_parent (heap w a) of
        None \<Rightarrow> Inr False
      | Some ParentFigure \<Rightarrow> Inr (in_batch_mode (wfig w))
      | Some (ParentObj p) \<Rightarrow> in_batch_mode_of n w p)"

text \<open>
  \<^verbatim>\<open>self._props\<close> of an object with a parent is the dict that sits inside the dict of
  the parent, up to \<^verbatim>\<open>_data\<close> or \<^verbatim>\<open>_layout\<close> of the figure, and a write to it is seen
  there. The model has values and no shared dicts: \<open>put_child_props\<close> hands the changed
  dict of a child to its parent along the way that \<^verbatim>\<open>_get_child_props\<close> came down.
  The properties of an object are a dict, and those of a tuple of objects a list of
  dicts; where the figure holds something else in such a place, the writes of the model
  raise \<^verbatim>\<open>TypeError\<close>.
\<close>

fun put_child_props :: "nat \<Rightarrow> world \<Rightarrow> parent_ref \<Rightarrow> addr \<Rightarrow> pval \<Rightarrow> error + world" where
  "put_child_props 0 w p child new = Inl RecursionError"
| "put_child_props (Suc n) w ParentFigure child new =
     (case index_of (fig_data_objs (wfig w)) child of
        Some trace_index \<Rightarrow>
          if trace_index < length (fig_data (wfig w))
          then Inr (w\<lparr>wfig := (wfig w)\<lparr>fig_data := (fig_data (wfig w))[trace_index := new]\<rparr>\<rparr>)
          else Inl IndexError
      | None \<Rightarrow>
          if child = fig_layout_obj (wfig w) then Inr (w\<lparr>wfig := (wfig w)\<lparr>fig_layout := new\<rparr>\<rparr>)
          else Inl UnrecognizedChild)"
| "put_child_props (Suc n) w (ParentObj self) child new =
     (case obj_parent (heap w self) of
        None \<Rightarrow> Inl AttributeError
      | Some pp \<Rightarrow>
          (case get_child_props n w pp self of
             Inl e \<Rightarrow> Inl e
           | Inr None \<Rightarrow> Inl TypeError
           | Inr (Some self_props) \<Rightarrow>
               (case map_of (obj_compound_props (heap w self)) (obj_name (heap w child)) of
                  None \<Rightarrow> Inl (KeyError (KStr (obj_name (heap w child))))
                | Some (Child c) \<Rightarrow>
                    if c = child
                    then put_child_props n w pp self
                           (store_back self_props (KStr (obj_name (heap w child))) new)
                    else Inl TypeError
                | Some (Children cs) \<Rightarrow>
                    (case index_of cs child of
                       None \<Rightarrow> Inl NotInSequence
                     | Some child_ind \<Rightarrow>
                         (case subscript self_props (KStr (obj_name (heap w child))) of
                            Inl e \<Rightarrow> Inl e
                          | Inr children_props \<Rightarrow>
                              put_child_props n w pp self
                                (store_back self_props (KStr (obj_name (heap w child)))
                                   (store_back children_props (KInt (int child_ind)) new)))))))"

text \<open>
  \<^verbatim>\<open>_init_child_props\<close>: of the figure (line 582), which has nothing to do, and of an
  object (line 1472), which first makes sure of its own dict and then of the entry for
  the child in it. What comes back is the state, with the exception if one was raised.
\<close>

definition written :: "world \<Rightarrow> error + world \<Rightarrow> world \<times> error option" where
  "written w r = (case r of Inl e \<Rightarrow> (w, Some e) | Inr w' \<Rightarrow> (w', None))"

definition pad_dicts :: "pval list \<Rightarrow> nat \<Rightarrow> pval list" where
  "pad_dicts xs child_ind =
     (if length xs \<le> child_ind then xs @ replicate (Suc child_ind - length xs) (PDict fmempty)
      else xs)"

fun init_child_props :: "nat \<Rightarrow> world \<Rightarrow> parent_ref \<Rightarrow> addr \<Rightarrow> world \<times> error option" where
  "init_child_props 0 w p child = (w, Some RecursionError)"
| "init_child_props (Suc n) w ParentFigure child = (w, None)"
| "init_child_props (Suc n) w (ParentObj self) child =
     (case obj_parent (heap w self) of
        None \<Rightarrow> (w, Some AttributeError)
      | Some pp \<Rightarrow>
          (case init_child_props n w pp self of
             (w1, Some e) \<Rightarrow> (w1, Some e)
           | (w1, None) \<Rightarrow>
               (case get_child_props n w1 pp self of
                  Inl e \<Rightarrow> (w1, Some e)
                | Inr self_props0 \<Rightarrow>
                    (let name = obj_name (heap w1 child) in
                     case map_of (obj_compound_props (heap w1 self)) name of
                       None \<Rightarrow> (w1, Some (KeyError (KStr name)))
                     | Some (Child c) \<Rightarrow>
                         if c = child then
                           (case self_props0 of
                              Some (PDict m) \<Rightarrow>
                                if fmlookup m (KStr name) \<noteq> None then (w1, None)
                                else written w1 (put_child_props n w1 pp self
                                       (PDict (fmupd (KStr name) (PDict fmempty) m)))
                            | _ \<Rightarrow> (w1, Some TypeError))
                         else (w1, None)
                     | Some (Children cs) \<Rightarrow>
                         (case index_of cs child of
                            None \<Rightarrow> (w1, Some NotInSequence)
                          | Some child_ind \<Rightarrow>
                              (case self_props0 of
                                 Some (PDict m) \<Rightarrow>
                                   (case (case fmlookup m (KStr name) of
                                            None \<Rightarrow> Some (PList [])
                                          | Some v \<Rightarrow> Some v) of
                                      Some (PList child_list) \<Rightarrow>
                                        written w1 (put_child_props n w1 pp self
                                          (PDict (fmupd (KStr name)
                                             (PList (pad_dicts child_list child_ind)) m)))
                                    | _ \<Rightarrow> (w1, Some TypeError))
                               | _ \<Rightarrow> (w1, Some TypeError)))))))"

text \<open>
  \<^verbatim>\<open>_init_props\<close> (line 1465): nothing when the object has a dict of properties, else
  the parent is asked to make one.
\<close>

definition init_props :: "world \<Rightarrow> addr \<Rightarrow> world \<times> error option" where
  "init_props w a =
     (case props_of w a of
        Inl e \<Rightarrow> (w, Some e)
      | Inr (Some v) \<Rightarrow> (w, None)
      | Inr None \<Rightarrow>
          (case obj_parent (heap w a) of
             None \<Rightarrow> (w, Some AttributeError)
           | Some p \<Rightarrow> init_child_props recursion_limit w p a))"

text \<open>
  The two writes of \<^verbatim>\<open>_set_compound_prop\<close> to the dict \<^verbatim>\<open>self._props\<close>:
  \<^verbatim>\<open>if prop in self._props: self._props.pop(prop)\<close> (line 1628) and
  \<^verbatim>\<open>self._props[prop] = new_dict_val\<close> (line 1632). The properties of an object without
  a parent are its \<^verbatim>\<open>_orphan_props\<close>, a dict.
\<close>

definition props_pop :: "world \<Rightarrow> addr \<Rightarrow> string \<Rightarrow> error + world" where
  "props_pop w a prop =
     (case obj_parent (heap w a) of
        None \<Rightarrow>
          Inr (w\<lparr>heap := (heap w)(a := (heap w a)
                 \<lparr>obj_orphan_props := fmdrop (KStr prop) (obj_orphan_props (heap w a))\<rparr>)\<rparr>)
      | Some p \<Rightarrow>
          (case get_child_props recursion_limit w p a of
             Inl e \<Rightarrow> Inl e
           | Inr (Some (PDict m)) \<Rightarrow>
               if fmlookup m (KStr prop) \<noteq> None
               then put_child_props recursion_limit w p a (PDict (fmdrop (KStr prop) m))
               else Inr w
           | Inr other \<Rightarrow> Inl TypeError))"

definition props_setitem :: "world \<Rightarrow> addr \<Rightarrow> string \<Rightarrow> pval \<Rightarrow> error + world" where
  "props_setitem w a prop v =
     (case obj_parent (heap w a) of
        None \<Rightarrow>
          Inr (w\<lparr>heap := (heap w)(a := (heap w a)
                 \<lparr>obj_orphan_props := fmupd (KStr prop) v (obj_orphan_props (heap w a))\<rparr>)\<rparr>)
      | Some p \<Rightarrow>
          (case get_child_props recursion_limit w p a of
             Inl e \<Rightarrow> Inl e
           | Inr (Some (PDict m)) \<Rightarrow>
               put_child_props recursion_limit w p a (PDict (fmupd (KStr prop) v m))
           | Inr other \<Rightarrow> Inl TypeError))"

text \<open>Lines 1626 to 1632, the update of the data dict outside a batch.\<close>

definition update_data_dict :: "world \<Rightarrow> addr \<Rightarrow> string \<Rightarrow> pval option \<Rightarrow> world \<times> error option" where
  "update_data_dict w self prop new_dict_val =
     (if py_not (opt_val new_dict_val) then written w (props_pop w self prop)
      else case init_props w self of
             (w2, Some e) \<Rightarrow> (w2, Some e)
           | (w2, None) \<Rightarrow> written w2 (props_setitem w2 self prop (opt_val new_dict_val)))"

text \<open>
  \<^verbatim>\<open>_send_update\<close> of the layout classes (line 1769): nothing without a parent, and
  \<^verbatim>\<open>_relayout_child\<close> of the parent otherwise. That of the figure is line 641; that of
  an object (line 1714) goes through the accessors of the generated classes, which are
  not among the sources, and is the parameter \<open>update_child\<close>.
\<close>

definition layout_send_update ::
  "(world \<Rightarrow> addr \<Rightarrow> addr \<Rightarrow> string \<Rightarrow> pval \<Rightarrow> world \<times> (error + unit))
     \<Rightarrow> world \<Rightarrow> addr \<Rightarrow> string \<Rightarrow> pval \<Rightarrow> world \<times> (error + unit)" where
  "layout_send_update update_child w self prop val =
     (case obj_parent (heap w self) of
        None \<Rightarrow> (w, Inr ())
      | Some ParentFigure \<Rightarrow> (w\<lparr>wfig := relayout_child (wfig w) self prop val\<rparr>, Inr ())
      | Some (ParentObj p) \<Rightarrow> update_child w p self prop val)"

text \<open>
  What is assigned to a compound property: the sentinel \<^verbatim>\<open>Undefined\<close>, or something
  for the validator of the property to look at.
\<close>

datatype 'v assigned = Undefined | Given 'v

text \<open>
  \<^verbatim>\<open>curr_val._orphan_props.update(curr_dict_val)\<close> (line 1645) followed by
  \<^verbatim>\<open>curr_val._parent = None\<close>.
\<close>

definition release_child :: "world \<Rightarrow> addr \<Rightarrow> pval option \<Rightarrow> error + world" where
  "release_child w curr_val curr_dict_val =
     (case curr_dict_val of
        None \<Rightarrow> Inr (w\<lparr>heap := (heap w)(curr_val := (heap w curr_val)\<lparr>obj_parent := None\<rparr>)\<rparr>)
      | Some (PDict m) \<Rightarrow>
          Inr (w\<lparr>heap := (heap w)(curr_val := (heap w curr_val)
                 \<lparr>obj_orphan_props := obj_orphan_props (heap w curr_val) ++\<^sub>f m,
                  obj_parent := None\<rparr>)\<rparr>)
      | Some other \<Rightarrow> Inl TypeError)"

text \<open>
  \<^verbatim>\<open>_set_compound_prop\<close> (line 1606) as the layout classes run it. The validators are
  not among the sources: \<open>validate_coerce\<close> is a parameter that turns what was assigned
  into an object of the property's class, or into \<^verbatim>\<open>None\<close>, or refuses it.
  \<^verbatim>\<open>deepcopy\<close> is the identity on values. The state that comes back with an error is
  the state at the \<^verbatim>\<open>raise\<close>.
\<close>

definition set_compound_prop ::
  "(world \<Rightarrow> addr \<Rightarrow> addr \<Rightarrow> string \<Rightarrow> pval \<Rightarrow> world \<times> (error + unit))
     \<Rightarrow> (validator \<Rightarrow> world \<Rightarrow> 'v \<Rightarrow> world \<times> (error + addr option))
     \<Rightarrow> world \<Rightarrow> addr \<Rightarrow> string \<Rightarrow> 'v assigned \<Rightarrow> world \<times> (error + addr option)" where
  "set_compound_prop update_child validate_coerce w self prop val0 =
     (case val0 of
        Undefined \<Rightarrow> (w, Inr None)
      | Given raw \<Rightarrow>
     (case map_of (obj_validators (heap w self)) prop of
        None \<Rightarrow> (w, Inl AttributeError)
      | Some validator \<Rightarrow>
     (case validate_coerce validator w raw of
        (w1, Inl e) \<Rightarrow> (w1, Inl e)
      | (w1, Inr val) \<Rightarrow>
     (case (case map_of (obj_compound_props (heap w1 self)) prop of
              None \<Rightarrow> Inr (None, None)
            | Some (Children cs) \<Rightarrow> Inl AttributeError
            | Some (Child c) \<Rightarrow> map_sum id (\<lambda>d. (Some c, d)) (props_of w1 c)) of
        Inl e \<Rightarrow> (w1, Inl e)
      | Inr (curr_val, curr_dict_val) \<Rightarrow>
     (case (case val of None \<Rightarrow> Inr None | Some v \<Rightarrow> props_of w1 v) of
        Inl e \<Rightarrow> (w1, Inl e)
      | Inr new_dict_val \<Rightarrow>
     (case in_batch_mode_of recursion_limit w1 self of
        Inl e \<Rightarrow> (w1, Inl e)
      | Inr batch \<Rightarrow>
     (case (if batch then (w1, None) else update_data_dict w1 self prop new_dict_val) of
        (w3, Some e) \<Rightarrow> (w3, Inl e)
      | (w3, None) \<Rightarrow>
     (case (if \<not> vals_equal (opt_val curr_dict_val) (opt_val new_dict_val)
            then layout_send_update update_child w3 self prop (opt_val new_dict_val)
            else (w3, Inr ())) of
        (w4, Inl e) \<Rightarrow> (w4, Inl e)
      | (w4, Inr u) \<Rightarrow>
     (case val of
        None \<Rightarrow> (w4, Inl AttributeError)
      | Some v \<Rightarrow>
          (let w5 = w4\<lparr>heap := (heap w4)(v := (heap w4 v)
                          \<lparr>obj_parent := Some (ParentObj self), obj_orphan_props := fmempty\<rparr>)\<rparr>
           in case (case curr_val of
                      None \<Rightarrow> Inr w5
                    | Some c \<Rightarrow> if c \<noteq> v then release_child w5 c curr_dict_val else Inr w5) of
                Inl e \<Rightarrow> (w5, Inl e)
              | Inr w6 \<Rightarrow>
                  (w6\<lparr>heap := (heap w6)(self := (heap w6 self)
                         \<lparr>obj_compound_props :=
                            dict_set (obj_compound_props (heap w6 self)) prop (Child v)\<rparr>)\<rparr>,
                   Inr (Some v))))))))))))"

text \<open>
  The regular expression \<^verbatim>\<open>(xaxis|yaxis|geo|ternary|scene)(\d+)\<close> against the whole
  name (line 1784): the two groups, when the name is one of the five followed by at
  least one digit.
\<close>

definition subplotid_prop_names :: "string list" where
  "subplotid_prop_names = [''xaxis'', ''yaxis'', ''geo'', ''ternary'', ''scene'']"

definition subplotid_match :: "string \<Rightarrow> (string \<times> string) option" where
  "subplotid_match prop =
     (case filter (\<lambda>name. is_prefix name prop
                      \<and> drop (length name) prop \<noteq> []
                      \<and> list_all is_digit (drop (length name) prop)) subplotid_prop_names of
        [] \<Rightarrow> None
      | name # names \<Rightarrow> Some (name, drop (length name) prop))"

text \<open>
  The class attribute \<^verbatim>\<open>_subplotid_validators\<close> (line 1778) by the names of the classes,
  which are imported from the generated validators.
\<close>

definition subplotid_validators :: "(string \<times> string) list" where
  "subplotid_validators =
     [(''xaxis'', ''XaxisValidator''), (''yaxis'', ''YaxisValidator''), (''geo'', ''GeoValidator''),
      (''ternary'', ''TernaryValidator''), (''scene'', ''SceneValidator'')]"

text \<open>
  \<^verbatim>\<open>_set_subplotid_prop\<close> (line 1797). The second group of the match is a run of digits,
  on which \<^verbatim>\<open>int\<close> is \<open>digits_val\<close>. The exception for the suffixes 0 and 1 is a
  \<^verbatim>\<open>TypeError\<close> with its own message, \<open>SubplotSuffix\<close> in the model.
\<close>

definition set_subplotid_prop ::
  "(world \<Rightarrow> addr \<Rightarrow> addr \<Rightarrow> string \<Rightarrow> pval \<Rightarrow> world \<times> (error + unit))
     \<Rightarrow> (validator \<Rightarrow> world \<Rightarrow> 'v \<Rightarrow> world \<times> (error + addr option))
     \<Rightarrow> world \<Rightarrow> addr \<Rightarrow> string \<Rightarrow> 'v assigned \<Rightarrow> world \<times> (error + unit)" where
  "set_subplotid_prop update_child validate_coerce w self prop val =
     (case subplotid_match prop of
        None \<Rightarrow> (w, Inl AttributeError)
      | Some (subplot_prop, digits) \<Rightarrow>
          if digits_val digits \<in> {0, 1} then (w, Inl (SubplotSuffix prop))
          else
            (case map_of subplotid_validators subplot_prop of
               None \<Rightarrow> (w, Inl (KeyError (KStr subplot_prop)))
             | Some cls \<Rightarrow>
                 (let w1 = (if map_of (obj_validators (heap w self)) prop = None
                            then w\<lparr>heap := (heap w)(self := (heap w self)
                                   \<lparr>obj_validators :=
                                      dict_set (obj_validators (heap w self)) prop
                                        (Validator cls prop)\<rparr>)\<rparr>
                            else w)
                  in case set_compound_prop update_child validate_coerce w1 self prop val of
                       (w2, Inl e) \<Rightarrow> (w2, Inl e)
                     | (w2, Inr child) \<Rightarrow>
                         (w2\<lparr>heap := (heap w2)(self := (heap w2 self)
                                \<lparr>obj_subplotid_props :=
                                   dict_set (obj_subplotid_props (heap w2 self)) prop child\<rparr>)\<rparr>,
                          Inr ()))))"

text \<open>
  \<^verbatim>\<open>__getattr__\<close> (line 1814), which Python calls for a name that is not an attribute
  of the class, and \<^verbatim>\<open>__setattr__\<close> (line 1822) of the layout. A name that is not a
  subplot property goes to \<^verbatim>\<open>__setattr__\<close> of the base class and from there to the
  generated accessors, the parameter \<open>ordinary\<close>.
\<close>

definition layout_getattr :: "world \<Rightarrow> addr \<Rightarrow> string \<Rightarrow> error + addr option" where
  "layout_getattr w self item =
     (case map_of (obj_subplotid_props (heap w self)) item of
        Some child \<Rightarrow> Inr child
      | None \<Rightarrow> Inl AttributeError)"

definition layout_setattr ::
  "(world \<Rightarrow> addr \<Rightarrow> string \<Rightarrow> 'v assigned \<Rightarrow> world \<times> (error + unit))
     \<Rightarrow> (world \<Rightarrow> addr \<Rightarrow> addr \<Rightarrow> string \<Rightarrow> pval \<Rightarrow> world \<times> (error + unit))
     \<Rightarrow> (validator \<Rightarrow> world \<Rightarrow> 'v \<Rightarrow> world \<times> (error + addr option))
     \<Rightarrow> world \<Rightarrow> addr \<Rightarrow> string \<Rightarrow> 'v assigned \<Rightarrow> world \<times> (error + unit)" where
  "layout_setattr ordinary update_child validate_coerce w self prop val =
     (case subplotid_match prop of
        None \<Rightarrow> ordinary w self prop val
      | Some groups \<Rightarrow> set_subplotid_prop update_child validate_coerce w self prop val)"

section \<open>The schema compiler: validator modules\<close>

text \<open>
  A \<^verbatim>\<open>PlotlyNode\<close> of the schema tree. The class is defined in \<^verbatim>\<open>codegen/utils.py\<close>,
  which is not among the sources; a node is known here by the values of the properties
  that \<^verbatim>\<open>build_validators_py\<close> reads: \<open>node_name\<close> is \<^verbatim>\<open>name\<close>, \<open>node_datatype\<close> is
  \<^verbatim>\<open>datatype\<close>, \<open>node_data\<close> is \<^verbatim>\<open>repr(node_data)\<close>, and \<open>constructor_params_docstring\<close> is
  the result of \<^verbatim>\<open>get_constructor_params_docstring()\<close>.
\<close>

record node_props =
  node_name :: string
  name_undercase :: string
  node_data :: string
  dir_str :: string
  parent_dir_str :: string
  pkg_str :: string
  node_datatype :: string
  datatype_pascal_case :: string
  name_validator :: string
  name_property :: string
  name_pascal_case :: string
  name_class :: string
  is_compound :: bool
  is_array_element :: bool
  is_simple :: bool
  constructor_params_docstring :: string

datatype node = Node (the_props: node_props) (simple_attrs: "node list") (child_datatypes: "node list")

text \<open>The table of line 9 of \<^verbatim>\<open>codegen/validators.py\<close>.\<close>

definition custom_validator_datatypes :: "(string \<times> string) list" where
  "custom_validator_datatypes = [(''layout.image.source'', ''ImageUri'')]"

text \<open>
  Modelled from the spec: the property \<^verbatim>\<open>name_base_validator\<close> of \<^verbatim>\<open>PlotlyNode\<close>, which
  \<^verbatim>\<open>build_validators_py\<close> writes after \<^verbatim>\<open>bv.\<close> and which is defined in the missing
  \<^verbatim>\<open>codegen/utils.py\<close>. The spec: the base kind is chosen by the value kind of the node,
  the compound base for compound objects, the compound-array base for compound-array
  objects, otherwise the leaf base named after the declared value kind, with one fixed
  exception: a node whose dotted path is exactly \<^verbatim>\<open>layout.image.source\<close> always uses the
  image-uri base. The exception is read from the table of line 9, as the lines 42 to 45
  that are commented out did.
\<close>

definition name_base_validator :: "node \<Rightarrow> string" where
  "name_base_validator n =
     (case map_of custom_validator_datatypes (dir_str (the_props n)) of
        Some base \<Rightarrow> base @ ''Validator''
      | None \<Rightarrow>
          if is_array_element (the_props n) then ''CompoundArrayValidator''
          else if is_compound (the_props n) then ''CompoundValidator''
          else datatype_pascal_case (the_props n) @ ''Validator'')"

text \<open>
  \<^verbatim>\<open>repr\<close> of a \<^verbatim>\<open>str\<close> of printable ASCII characters: in double quotes when the
  text has a single quote and no double quote, else in single quotes; backslashes and
  the quote in use are escaped.
\<close>

definition py_repr :: "string \<Rightarrow> string" where
  "py_repr s =
     (let q = (if CHR 0x27 \<in> set s \<and> CHR 0x22 \<notin> set s then CHR 0x22 else CHR 0x27)
      in [q] @ concat (map (\<lambda>c. if c = CHR 0x5C \<or> c = q then [CHR 0x5C, c] else [c]) s) @ [q])"

definition triple_quote :: string where
  "triple_quote = [CHR 0x22, CHR 0x22, CHR 0x22]"

text \<open>
  Lines 77 to 83: the keyword arguments of a simple validator, a dict from
  \<^verbatim>\<open>name_undercase\<close> to the text of the value, in the order of first insertion.
\<close>

definition attr_dict_of :: "node \<Rightarrow> string option \<Rightarrow> (string \<times> string) list" where
  "attr_dict_of datatype_node colorscale_path =
     (let excluded_props =
            (if node_datatype (the_props datatype_node) = ''subplotid''
             then [''valType'', ''description'', ''role'']
             else [''valType'', ''description'', ''role'', ''dflt'']);
          attr_nodes = filter (\<lambda>n. node_name (the_props n) \<notin> set excluded_props)
                         (simple_attrs datatype_node);
          attr_dict = foldl (\<lambda>d n. dict_set d (name_undercase (the_props n)) (node_data (the_props n)))
                        [] attr_nodes
      in case colorscale_path of
           Some path \<Rightarrow>
             if node_datatype (the_props datatype_node) = ''color'' \<and> path \<noteq> []
             then dict_set attr_dict ''colorscale_path'' (py_repr path)
             else attr_dict
         | None \<Rightarrow> attr_dict)"

text \<open>
  The body of the loop of \<^verbatim>\<open>build_validators_py\<close> (lines 40 to 89): the text that is
  written for one node, or the \<^verbatim>\<open>AssertionError\<close> of line 69.
\<close>

definition write_validator :: "node \<Rightarrow> string option \<Rightarrow> node \<Rightarrow> error + string" where
  "write_validator parent_node colorscale_path datatype_node =
     (let p = the_props datatype_node;
          head = ''\<newline>        \<newline>class '' @ name_validator p @ ''(bv.''
                   @ name_base_validator datatype_node @ ''):\<newline>''
                   @ ''    def __init__(self, prop_name='' @ [CHR 0x27] @ name_property p
                   @ [CHR 0x27] @ ''):'';
          imp = (if is_compound p
                 then ''\<newline>        from ipyplotly.datatypes'' @ pkg_str (the_props parent_node)
                        @ '' import '' @ name_pascal_case p
                 else []);
          sup = ''\<newline>        super().__init__(name=prop_name,\<newline>''
                  @ ''                         parent_name='' @ [CHR 0x27] @ parent_dir_str p
                  @ [CHR 0x27]
      in if is_array_element p then
           Inr (head @ imp @ sup @ '',\<newline>                         element_class=''
                  @ name_class p @ '',\<newline>                         element_docs=''
                  @ triple_quote @ constructor_params_docstring p @ triple_quote @ '')'')
         else if is_compound p then
           Inr (head @ imp @ sup @ '',\<newline>                         data_class=''
                  @ name_class p @ '',\<newline>                         data_docs=''
                  @ triple_quote @ constructor_params_docstring p @ triple_quote @ '')'')
         else if \<not> is_simple p then Inl AssertionError
         else
           Inr (head @ imp @ sup
                  @ concat (map (\<lambda>(attr_name, attr_val).
                                   '',\<newline>                         '' @ attr_name @ ''='' @ attr_val)
                              (attr_dict_of datatype_node colorscale_path))
                  @ '')''))"

fun write_validators :: "node \<Rightarrow> string option \<Rightarrow> node list \<Rightarrow> error + string" where
  "write_validators parent_node colorscale_path [] = Inr []"
| "write_validators parent_node colorscale_path (datatype_node # nodes) =
     (case write_validator parent_node colorscale_path datatype_node of
        Inl e \<Rightarrow> Inl e
      | Inr text1 \<Rightarrow>
          (case write_validators parent_node colorscale_path nodes of
             Inl e \<Rightarrow> Inl e
           | Inr text2 \<Rightarrow> Inr (text1 @ text2)))"

text \<open>
  \<^verbatim>\<open>build_validators_py\<close> (line 12): the nodes are the child datatypes of the parent
  and the extra nodes whose key starts with the path of the parent; without nodes
  nothing is built.
\<close>

definition datatype_nodes :: "node \<Rightarrow> (string \<times> node) list \<Rightarrow> node list" where
  "datatype_nodes parent_node extra_nodes =
     child_datatypes parent_node
       @ map snd (filter (\<lambda>(node_name, n). is_prefix (dir_str (the_props parent_node)) node_name)
                    extra_nodes)"

definition build_validators_py :: "node \<Rightarrow> (string \<times> node) list \<Rightarrow> error + string option" where
  "build_validators_py parent_node extra_nodes =
     (let nodes = datatype_nodes parent_node extra_nodes in
      if nodes = [] then Inr None
      else
        let colorscale_node_list = filter (\<lambda>n. node_datatype (the_props n) = ''colorscale'') nodes;
            colorscale_path = (case colorscale_node_list of
                                 [] \<Rightarrow> None
                               | n # ns \<Rightarrow> Some (dir_str (the_props n)))
        in case write_validators parent_node colorscale_path nodes of
             Inl e \<Rightarrow> Inl e
           | Inr body \<Rightarrow> Inr (Some (''import ipyplotly.basevalidators as bv\<newline>'' @ body)))"

section \<open>Example figures\<close>

text \<open>
  A figure as the constructor leaves it when no trace is passed (line 73), with the layout
  object at address 10, and trace objects of a generated class with the simple properties
  \<^verbatim>\<open>uid\<close>, \<^verbatim>\<open>name\<close> and \<^verbatim>\<open>opacity\<close>.
\<close>

definition fig0 :: figure where
  "fig0 = \<lparr> fig_data = [], fig_data_defaults = [], fig_data_objs = [],
            fig_layout = PDict fmempty, fig_layout_defaults = PDict fmempty, fig_layout_obj = 10,
            last_relayout_msg_id = 0, last_restyle_msg_id = 0,
            relayout_in_process = False, waiting_relayout_callbacks = [],
            restyle_in_process = False, waiting_restyle_callbacks = [],
            in_batch_mode = False, batch_style_commands = [], batch_layout_commands = [],
            outbox = [], called = [] \<rparr>"

definition trace_obj :: "parent_ref option \<Rightarrow> (pkey, pval) fmap \<Rightarrow> pobj" where
  "trace_obj p orphan =
     \<lparr> obj_name = ''scatter'',
       obj_validators = [(''uid'', Validator ''UidValidator'' ''uid''),
                         (''name'', Validator ''NameValidator'' ''name''),
                         (''opacity'', Validator ''OpacityValidator'' ''opacity'')],
       obj_compound_props = [],
       obj_orphan_props = orphan,
       obj_parent = p,
       obj_subplotid_props = [] \<rparr>"

definition trace_dict :: "string \<Rightarrow> pval" where
  "trace_dict u = PDict (fmupd (KStr ''uid'') (PStr u) fmempty)"

text \<open>Three traces with the uids a, b and c, held by the objects 11, 12 and 13;
  object 14 is a trace with the uid d that belongs to no figure.\<close>

definition fig3 :: figure where
  "fig3 = fig0\<lparr> fig_data := [trace_dict ''a'', trace_dict ''b'', trace_dict ''c''],
                fig_data_defaults := [PDict fmempty, PDict fmempty, PDict fmempty],
                fig_data_objs := [11, 12, 13] \<rparr>"

definition heap3 :: "addr \<Rightarrow> pobj" where
  "heap3 a =
     (if a = 11 \<or> a = 12 \<or> a = 13 then trace_obj (Some ParentFigure) fmempty
      else if a = 14 then trace_obj None (fmupd (KStr ''uid'') (PStr ''d'') fmempty)
      else trace_obj None fmempty)"

definition world3 :: world where
  "world3 = \<lparr> wfig = fig3, heap = heap3 \<rparr>"


text \<open>
  A figure without traces whose layout is object 10, with a first x axis, object 21;
  object 22 is an axis that belongs to nothing, as a caller makes one. The validator of
  the example hands back the object that was assigned.
\<close>

definition layout_obj :: "parent_ref option \<Rightarrow> (string \<times> child_ref) list \<Rightarrow> pobj" where
  "layout_obj p children =
     \<lparr> obj_name = ''layout'',
       obj_validators = [(''title'', Validator ''TitleValidator'' ''title''),
                         (''xaxis'', Validator ''XaxisValidator'' ''xaxis'')],
       obj_compound_props = children,
       obj_orphan_props = fmempty,
       obj_parent = p,
       obj_subplotid_props = [] \<rparr>"

definition axis_obj :: "parent_ref option \<Rightarrow> (pkey, pval) fmap \<Rightarrow> pobj" where
  "axis_obj p orphan =
     \<lparr> obj_name = ''xaxis'',
       obj_validators = [(''title'', Validator ''TitleValidator'' ''title'')],
       obj_compound_props = [],
       obj_orphan_props = orphan,
       obj_parent = p,
       obj_subplotid_props = [] \<rparr>"

definition fig_axes :: figure where
  "fig_axes = fig0\<lparr> fig_layout :=
       PDict (fmupd (KStr ''xaxis'') (PDict (fmupd (KStr ''title'') (PStr ''first'') fmempty)) fmempty) \<rparr>"

definition heap_axes :: "addr \<Rightarrow> pobj" where
  "heap_axes a =
     (if a = 10 then layout_obj (Some ParentFigure) [(''xaxis'', Child 21)]
      else if a = 21 then axis_obj (Some (ParentObj 10)) fmempty
      else axis_obj None (fmupd (KStr ''title'') (PStr ''second'') fmempty))"

definition world_axes :: world where
  "world_axes = \<lparr> wfig = fig_axes, heap = heap_axes \<rparr>"

definition hand_back :: "validator \<Rightarrow> world \<Rightarrow> addr \<Rightarrow> world \<times> (error + addr option)" where
  "hand_back v w a = (w, Inr (Some a))"

definition no_accessor :: "world \<Rightarrow> addr \<Rightarrow> string \<Rightarrow> addr assigned \<Rightarrow> world \<times> (error + unit)" where
  "no_accessor w self prop val = (w, Inl AttributeError)"

definition no_update_child ::
  "world \<Rightarrow> addr \<Rightarrow> addr \<Rightarrow> string \<Rightarrow> pval \<Rightarrow> world \<times> (error + unit)" where
  "no_update_child w p child prop val = (w, Inr ())"

text \<open>
  The node \<^verbatim>\<open>layout.image\<close> with its child \<^verbatim>\<open>source\<close>, which the schema declares as a
  string, as the node class would describe them.
\<close>

definition attr_node :: "string \<Rightarrow> string \<Rightarrow> node" where
  "attr_node n v =
     Node \<lparr> node_name = n, name_undercase = n, node_data = v,
            dir_str = ''layout.image.source.'' @ n, parent_dir_str = ''layout.image.source'',
            pkg_str = ''.layout.image.source'', node_datatype = ''literal'',
            datatype_pascal_case = ''Literal'', name_validator = [], name_property = n,
            name_pascal_case = [], name_class = [], is_compound = False,
            is_array_element = False, is_simple = False, constructor_params_docstring = [] \<rparr>
       [] []"

definition source_node :: node where
  "source_node =
     Node \<lparr> node_name = ''source'', name_undercase = ''source'', node_data = ''{}'',
            dir_str = ''layout.image.source'', parent_dir_str = ''layout.image'',
            pkg_str = ''.layout.image'', node_datatype = ''string'',
            datatype_pascal_case = ''String'', name_validator = ''SourceValidator'',
            name_property = ''source'', name_pascal_case = ''Source'', name_class = ''Source'',
            is_compound = False, is_array_element = False, is_simple = True,
            constructor_params_docstring = [] \<rparr>
       [attr_node ''valType'' (py_repr ''string''), attr_node ''role'' (py_repr ''info'')] []"

definition image_node :: node where
  "image_node =
     Node \<lparr> node_name = ''image'', name_undercase = ''image'', node_data = ''{}'',
            dir_str = ''layout.image'', parent_dir_str = ''layout'',
            pkg_str = ''.layout'', node_datatype = ''compound'',
            datatype_pascal_case = ''Compound'', name_validator = ''ImageValidator'',
            name_property = ''image'', name_pascal_case = ''Image'', name_class = ''Image'',
            is_compound = True, is_array_element = True, is_simple = False,
            constructor_params_docstring = [] \<rparr>
       [] [source_node]"

section \<open>Message ids of a restyle\<close>

lemma map_of_dict_set:
  "map_of (dict_set d k v) k' = (if k' = k then Some v else map_of d k')"
  by (induction d) auto

text \<open>
  C10: every send of a restyle message outside a batch goes through
  \<^verbatim>\<open>_send_restyle_msg\<close>. It adds one to the restyle counter and to the relayout counter,
  stamps both \<^verbatim>\<open>_restyle_msg_id\<close> and \<^verbatim>\<open>_relayout_msg_id\<close> onto the style that is sent,
  and sets both in-process flags; so a callback given to \<^verbatim>\<open>on_relayout_completed\<close>
  right after it, and right after a \<^verbatim>\<open>restyle\<close> that sent a message, is queued and not
  called.
\<close>

theorem send_restyle_msg_bumps_both_counters:
  "last_restyle_msg_id (send_restyle_msg fig style trace_indexes) = last_restyle_msg_id fig + 1
   \<and> last_relayout_msg_id (send_restyle_msg fig style trace_indexes) = last_relayout_msg_id fig + 1
   \<and> restyle_in_process (send_restyle_msg fig style trace_indexes)
   \<and> relayout_in_process (send_restyle_msg fig style trace_indexes)
   \<and> (\<exists>sent. outbox (send_restyle_msg fig style trace_indexes)
                 = outbox fig @ [Restyle sent (idx_payload trace_indexes)]
              \<and> map_of sent ''_restyle_msg_id'' = Some (PInt (last_restyle_msg_id fig + 1))
              \<and> map_of sent ''_relayout_msg_id'' = Some (PInt (last_relayout_msg_id fig + 1)))
   \<and> waiting_relayout_callbacks
        (on_relayout_completed (send_restyle_msg fig style trace_indexes) fn)
       = waiting_relayout_callbacks fig @ [fn]
   \<and> called (on_relayout_completed (send_restyle_msg fig style trace_indexes) fn) = called fig
   \<and> (restyle fig patch sel = (fig', Inr ()) \<and> outbox fig' \<noteq> outbox fig \<longrightarrow>
        last_restyle_msg_id fig' = last_restyle_msg_id fig + 1
        \<and> last_relayout_msg_id fig' = last_relayout_msg_id fig + 1
        \<and> on_relayout_completed fig' fn
            = fig'\<lparr>waiting_relayout_callbacks := waiting_relayout_callbacks fig' @ [fn]\<rparr>)"
  by (auto simp add: send_restyle_msg_def on_relayout_completed_def Let_def map_of_dict_set restyle_def
      split: prod.splits sum.splits option.splits if_splits)

lemma path_opacity: "str_to_dict_path ''opacity'' = [KStr ''opacity'']"
  by code_simp

lemma restyle_example:
  "restyle fig3 [(''opacity'', PInt 1)] NoIndexes
     = (send_restyle_msg
          (fig3\<lparr>fig_data := map (\<lambda>u. PDict (fmupd (KStr ''opacity'') (PInt 1) (fmupd (KStr ''uid'') (PStr u) fmempty))) [''a'', ''b'', ''c'']\<rparr>)
          [(''opacity'', PList [PInt 1, PInt 1, PInt 1])] (Indexes (AsList [0, 1, 2])), Inr ())"
  by (simp add: restyle_def fig3_def fig0_def trace_dict_def perform_restyle_dict_def path_opacity startswith_underscore_def
       py_index_def cyclic_def vals_equal_def dispatch_change_callbacks_restyle_def upt_rec[of _ "numeral _"] upt_rec[of 0])


theorem send_restyle_msg_bumps_both_counters_witness:
  "\<exists>fig'. restyle fig3 [(''opacity'', PInt 1)] NoIndexes = (fig', Inr ())
      \<and> outbox fig' \<noteq> outbox fig3
      \<and> last_restyle_msg_id fig' = 1 \<and> last_relayout_msg_id fig' = 1
      \<and> waiting_relayout_callbacks (on_relayout_completed fig' 7) = [7]
      \<and> called (on_relayout_completed fig' 7) = []"
proof -
  obtain fig' where r: "restyle fig3 [(''opacity'', PInt 1)] NoIndexes = (fig', Inr ())"
    and f: "fig' = send_restyle_msg
          (fig3\<lparr>fig_data := map (\<lambda>u. PDict (fmupd (KStr ''opacity'') (PInt 1) (fmupd (KStr ''uid'') (PStr u) fmempty))) [''a'', ''b'', ''c'']\<rparr>)
          [(''opacity'', PList [PInt 1, PInt 1, PInt 1])] (Indexes (AsList [0, 1, 2]))"
    using restyle_example by blast
  have o: "outbox fig' \<noteq> outbox fig3"
    by (simp add: f send_restyle_msg_def fig3_def fig0_def)
  have z: "last_restyle_msg_id fig3 = 0" "last_relayout_msg_id fig3 = 0"
    by (simp_all add: fig3_def fig0_def)
  from send_restyle_msg_bumps_both_counters [of fig3 "[]" NoIndexes 7 "[(''opacity'', PInt 1)]" NoIndexes fig'] r o z
  have "last_restyle_msg_id fig' = 1 \<and> last_relayout_msg_id fig' = 1
        \<and> on_relayout_completed fig' 7
            = fig'\<lparr>waiting_relayout_callbacks := waiting_relayout_callbacks fig' @ [7]\<rparr>"
    by simp
  moreover have "waiting_relayout_callbacks fig' = []" "called fig' = []"
    by (simp_all add: f send_restyle_msg_def fig3_def fig0_def)
  ultimately show ?thesis using r o by (intro exI[of _ fig']) simp
qed

section \<open>Dict values in a restyle patch\<close>

lemma path_marker: "str_to_dict_path ''marker'' = [KStr ''marker'']" by code_simp

lemma subscript_not_objects: "subscript v el \<noteq> Inl RestyleObjectsNotSupported"
  by (cases "(v, el)" rule: subscript.cases) (auto split: option.splits)

lemma restyle_leaf_not_objects: "snd (restyle_leaf tv vp k) \<noteq> Inl RestyleObjectsNotSupported"
  by (cases tv) (auto split: pval.splits option.splits)

lemma walk_path_not_objects:
  "walk_path (restyle_leaf tv) vp path \<noteq> (vp', Inl RestyleObjectsNotSupported)"
proof (induction "restyle_leaf tv" vp path arbitrary: vp' rule: walk_path.induct)
  case (1 vp)
  then show ?case by simp
next
  case (2 vp last_key)
  then show ?case using restyle_leaf_not_objects[of tv vp last_key] by (auto simp del: restyle_leaf.simps)
next
  case (3 vp el nxt rest)
  then show ?case
    using subscript_not_objects by (auto simp: Let_def split: sum.splits prod.splits)
qed

lemma restyle_traces_not_objects:
  "restyle_traces d key_path vs i ts acc ch \<noteq> (d', Inl RestyleObjectsNotSupported)"
proof (induction ts arbitrary: d i acc ch)
  case Nil
  then show ?case by simp
next
  case (Cons t ts)
  show ?case
    using Cons.IH walk_path_not_objects[of "cyclic vs i" _ key_path]
    by (auto split: option.splits prod.splits sum.splits)
qed

lemma perform_restyle_items_not_objects:
  "perform_restyle_items d style ti rd \<noteq> (d', Inl RestyleObjectsNotSupported)"
proof (induction style arbitrary: d rd)
  case Nil
  then show ?case by simp
next
  case (Cons kv style)
  obtain k v where kv: "kv = (k, v)" by (cases kv)
  have nd: "\<not> is_dict (if \<not> is_list v then PList [v] else v)"
    by (cases v) auto
  show ?case
    using Cons.IH restyle_traces_not_objects[of d "str_to_dict_path k"]
    by (auto simp: kv nd Let_def simp del: is_dict.simps split: idx_seq.splits prod.splits sum.splits)
qed

text \<open>
  C8 says that a patch entry whose value is a dict is refused with the error of line 368.
  The test for a dict comes after the value was wrapped into a list, so it never holds:
  no restyle raises that error (the lemma above), and the dict is stored as the value of
  the property and sent. Here for the patch \<^verbatim>\<open>{'marker': {'color': 'red'}}\<close> on the first
  of three traces.
\<close>

theorem restyle_dict_value_not_rejected:
  "restyle fig3 [(''marker'', PDict (fmupd (KStr ''color'') (PStr ''red'') fmempty))] (OneIndex 0)
     = (send_restyle_msg
          (fig3\<lparr>fig_data :=
             [PDict (fmupd (KStr ''marker'') (PDict (fmupd (KStr ''color'') (PStr ''red'') fmempty))
                      (fmupd (KStr ''uid'') (PStr ''a'') fmempty)),
              trace_dict ''b'', trace_dict ''c'']\<rparr>)
          [(''marker'', PList [PDict (fmupd (KStr ''color'') (PStr ''red'') fmempty)])]
          (Indexes (AsList [0])),
        Inr ())"
  by (simp add: restyle_def fig3_def fig0_def trace_dict_def perform_restyle_dict_def path_marker
        startswith_underscore_def py_index_def cyclic_def vals_equal_def
        dispatch_change_callbacks_restyle_def)

section \<open>Adding traces inside a batch\<close>

lemma send_batch_update_empty:
  "batch_style_commands fig = [] \<Longrightarrow> batch_layout_commands fig = [] \<Longrightarrow>
   send_batch_update fig = (fig, Inr ())"
  by (simp add: send_batch_update_def build_update_params_from_batch_def update_def falsy_def)

text \<open>
  C9: while a batch is open \<^verbatim>\<open>add_traces\<close> clears both accumulators and then raises its
  \<^verbatim>\<open>ValueError\<close>. The writes batched before the call (\<open>writes\<close>, any statements that
  end normally with the batch still open) are gone: when the exception leaves the batch
  context, its exit finds nothing to send, and the figure ends with the outbox the writes
  left and with empty accumulators.
\<close>

theorem add_traces_in_batch_discards_pending:
  "(in_batch_mode (wfig w) \<longrightarrow>
      add_traces validate_coerce w new_traces
        = (w\<lparr>wfig := (wfig w)\<lparr>batch_layout_commands := [], batch_style_commands := []\<rparr>\<rparr>,
           Inl TracesAddedInBatch))
   \<and> (\<not> in_batch_mode (wfig w0)
        \<and> writes (w0\<lparr>wfig := (wfig w0)\<lparr>in_batch_mode := True\<rparr>\<rparr>) = (w, Inr ())
        \<and> in_batch_mode (wfig w) \<longrightarrow>
      batch_update w0 (and_then writes (\<lambda>w1. discard_result (add_traces validate_coerce w1 new_traces)))
        = (w\<lparr>wfig := (wfig w)\<lparr>batch_layout_commands := [], batch_style_commands := [],
                              in_batch_mode := False\<rparr>\<rparr>,
           Inl TracesAddedInBatch))"
  by (auto simp: add_traces_def batch_update_def and_then_def discard_result_def
        send_batch_update_empty)


lemma batched_write_example:
  "restyle_child_in 11 ''opacity'' (PInt 1) (world3\<lparr>wfig := (wfig world3)\<lparr>in_batch_mode := True\<rparr>\<rparr>)
     = (world3\<lparr>wfig := (wfig world3)\<lparr>in_batch_mode := True,
                        batch_style_commands := [(0, [(''opacity'', PInt 1)])]\<rparr>\<rparr>, Inr ())"
  by (simp add: restyle_child_in_def restyle_child_def world3_def fig3_def fig0_def)

theorem add_traces_in_batch_discards_pending_witness:
  "\<exists>w. \<not> in_batch_mode (wfig world3)
      \<and> restyle_child_in 11 ''opacity'' (PInt 1)
            (world3\<lparr>wfig := (wfig world3)\<lparr>in_batch_mode := True\<rparr>\<rparr>) = (w, Inr ())
      \<and> in_batch_mode (wfig w)
      \<and> batch_style_commands (wfig w) = [(0, [(''opacity'', PInt 1)])]
      \<and> batch_update world3
            (and_then (restyle_child_in 11 ''opacity'' (PInt 1))
               (\<lambda>w1. discard_result (add_traces (\<lambda>w r. (w, Inr [])) w1 ())))
          = (world3, Inl TracesAddedInBatch)
      \<and> outbox (wfig world3) = []"
proof -
  let ?w = "world3\<lparr>wfig := (wfig world3)\<lparr>in_batch_mode := True,
                        batch_style_commands := [(0, [(''opacity'', PInt 1)])]\<rparr>\<rparr>"
  have nb: "\<not> in_batch_mode (wfig world3)" and ob: "outbox (wfig world3) = []"
    by (simp_all add: world3_def fig3_def fig0_def)
  have b: "in_batch_mode (wfig ?w)" by simp
  have restored: "?w\<lparr>wfig := (wfig ?w)\<lparr>batch_layout_commands := [], batch_style_commands := [],
                              in_batch_mode := False\<rparr>\<rparr> = world3"
    by (simp add: world3_def fig3_def fig0_def)
  have "batch_update world3
            (and_then (restyle_child_in 11 ''opacity'' (PInt 1))
               (\<lambda>w1. discard_result (add_traces (\<lambda>w r. (w, Inr [])) w1 ())))
          = (?w\<lparr>wfig := (wfig ?w)\<lparr>batch_layout_commands := [], batch_style_commands := [],
                              in_batch_mode := False\<rparr>\<rparr>, Inl TracesAddedInBatch)"
    using add_traces_in_batch_discards_pending
            [of ?w "\<lambda>w r. (w, Inr [])" "()" world3 "restyle_child_in 11 ''opacity'' (PInt 1)"]
          nb b batched_write_example
    by blast
  then have "batch_update world3
            (and_then (restyle_child_in 11 ''opacity'' (PInt 1))
               (\<lambda>w1. discard_result (add_traces (\<lambda>w r. (w, Inr [])) w1 ())))
          = (world3, Inl TracesAddedInBatch)"
    by (simp only: restored)
  with nb ob b batched_write_example show ?thesis
    by (intro exI[of _ ?w]) simp
qed

section \<open>Assigning traces the figure does not hold, or one trace twice\<close>

lemma set_uniq [simp]: "set (uniq xs) = set xs"
  by (induction xs) auto

lemma uniq_Nil_iff [simp]: "uniq xs = [] \<longleftrightarrow> xs = []"
  by (cases xs) auto

lemma count_list_gt1_iff: "(\<exists>u\<in>set xs. count_list xs u > 1) \<longleftrightarrow> \<not> distinct xs"
proof (induction xs)
  case Nil
  then show ?case by simp
next
  case (Cons x xs)
  have "count_list xs x > 0 \<longleftrightarrow> x \<in> set xs"
    by (simp add: count_list_0_iff zero_less_iff_neq_zero)
  with Cons show ?case by (auto simp: count_list_0_iff)
qed

text \<open>
  C2: when the uids of the figure's mirror and of the assigned trace objects can be read
  and hashed, an assigned uid that the figure does not hold makes the setter of
  \<^verbatim>\<open>data\<close> raise the \<^verbatim>\<open>ValueError\<close> of line 242, which names exactly the unknown uids;
  with every uid known, a uid that is assigned more than once makes it raise the
  \<^verbatim>\<open>ValueError\<close> of line 250, which names the repeated uids. Both times the figure and all
  objects are as they were: no trace was added.
\<close>

theorem data_setter_rejects_unknown_and_repeated:
  assumes "mirror_uids (wfig w) = Inr orig_uids"
      and "map_result (trace_uid w) new_data = Inr new_uids"
      and "list_all hashable orig_uids" and "list_all hashable new_uids"
  shows "(\<not> set new_uids \<subseteq> set orig_uids \<longrightarrow>
            (\<exists>us. data_setter w new_data = (w, Inl (InvalidTraces us))
                 \<and> us \<noteq> [] \<and> set us = set new_uids - set orig_uids))
       \<and> (set new_uids \<subseteq> set orig_uids \<and> \<not> distinct new_uids \<longrightarrow>
            (\<exists>us. data_setter w new_data = (w, Inl (DuplicateTraces us))
                 \<and> us \<noteq> [] \<and> set us = {u \<in> set new_uids. count_list new_uids u > 1}))"
proof (intro conjI impI)
  assume ns: "\<not> set new_uids \<subseteq> set orig_uids"
  let ?us = "uniq (filter (\<lambda>u. u \<notin> set orig_uids) new_uids)"
  from ns have ne: "?us \<noteq> []" by (auto simp: filter_empty_conv)
  have "validate_new_data w new_data = Inl (InvalidTraces ?us)"
    using assms ne by (simp add: validate_new_data_def Let_def)
  then have "data_setter w new_data = (w, Inl (InvalidTraces ?us))"
    by (simp add: data_setter_def)
  moreover have "set ?us = set new_uids - set orig_uids" by auto
  ultimately show "\<exists>us. data_setter w new_data = (w, Inl (InvalidTraces us))
                 \<and> us \<noteq> [] \<and> set us = set new_uids - set orig_uids"
    using ne by blast
next
  assume a: "set new_uids \<subseteq> set orig_uids \<and> \<not> distinct new_uids"
  let ?ds = "filter (\<lambda>u. count_list new_uids u > 1) (uniq new_uids)"
  from a have inv: "filter (\<lambda>u. u \<notin> set orig_uids) new_uids = []"
    by (auto simp: filter_empty_conv)
  from a have ne: "?ds \<noteq> []"
    using count_list_gt1_iff[of new_uids] by (auto simp: filter_empty_conv)
  have "validate_new_data w new_data = Inl (DuplicateTraces ?ds)"
    using assms ne inv by (simp add: validate_new_data_def Let_def)
  then have "data_setter w new_data = (w, Inl (DuplicateTraces ?ds))"
    by (simp add: data_setter_def)
  moreover have "set ?ds = {u \<in> set new_uids. count_list new_uids u > 1}" by auto
  ultimately show "\<exists>us. data_setter w new_data = (w, Inl (DuplicateTraces us))
                 \<and> us \<noteq> [] \<and> set us = {u \<in> set new_uids. count_list new_uids u > 1}"
    using ne by blast
qed

lemma get_child_props_figure:
  "0 < n \<Longrightarrow>
   get_child_props n w ParentFigure a =
     (case index_of (fig_data_objs (wfig w)) a of
        Some trace_index \<Rightarrow>
          if trace_index < length (fig_data (wfig w))
          then Inr (Some (fig_data (wfig w) ! trace_index)) else Inl IndexError
      | None \<Rightarrow>
          if a = fig_layout_obj (wfig w) then Inr (Some (fig_layout (wfig w)))
          else Inl UnrecognizedChild)"
  by (cases n) simp_all

lemma get_child_prop_defaults_figure:
  "0 < n \<Longrightarrow>
   get_child_prop_defaults n w ParentFigure a =
     (case index_of (fig_data_objs (wfig w)) a of
        Some trace_index \<Rightarrow>
          if trace_index < length (fig_data_defaults (wfig w))
          then Inr (Some (fig_data_defaults (wfig w) ! trace_index)) else Inl IndexError
      | None \<Rightarrow>
          if a = fig_layout_obj (wfig w) then Inr (Some (fig_layout_defaults (wfig w)))
          else Inl UnrecognizedChild)"
  by (cases n) simp_all

lemma props_of_figure_child:
  "obj_parent (heap w a) = Some ParentFigure \<Longrightarrow>
   props_of w a =
     (case index_of (fig_data_objs (wfig w)) a of
        Some trace_index \<Rightarrow>
          if trace_index < length (fig_data (wfig w))
          then Inr (Some (fig_data (wfig w) ! trace_index)) else Inl IndexError
      | None \<Rightarrow>
          if a = fig_layout_obj (wfig w) then Inr (Some (fig_layout (wfig w)))
          else Inl UnrecognizedChild)"
  by (simp add: props_of_def recursion_limit_def get_child_props_figure)

lemma prop_defaults_of_figure_child:
  "obj_parent (heap w a) = Some ParentFigure \<Longrightarrow>
   prop_defaults_of w a =
     (case index_of (fig_data_objs (wfig w)) a of
        Some trace_index \<Rightarrow>
          if trace_index < length (fig_data_defaults (wfig w))
          then Inr (Some (fig_data_defaults (wfig w) ! trace_index)) else Inl IndexError
      | None \<Rightarrow>
          if a = fig_layout_obj (wfig w) then Inr (Some (fig_layout_defaults (wfig w)))
          else Inl UnrecognizedChild)"
  by (simp add: prop_defaults_of_def recursion_limit_def get_child_prop_defaults_figure)

lemma world3_uids:
  "mirror_uids (wfig world3) = Inr [PStr ''a'', PStr ''b'', PStr ''c'']"
  by (simp add: mirror_uids_def world3_def fig3_def fig0_def trace_dict_def)

lemma world3_trace_uid:
  "trace_uid world3 11 = Inr (PStr ''a'')"
  "trace_uid world3 12 = Inr (PStr ''b'')"
  "trace_uid world3 13 = Inr (PStr ''c'')"
  "trace_uid world3 14 = Inr (PStr ''d'')"
  by (simp_all add: trace_uid_def getitem_simple_def props_of_def recursion_limit_def
        get_child_props_figure world3_def heap3_def trace_obj_def fig3_def fig0_def trace_dict_def)

theorem data_setter_rejects_unknown_and_repeated_witness:
  "(\<exists>us. data_setter world3 [12, 14] = (world3, Inl (InvalidTraces us))
         \<and> us \<noteq> [] \<and> set us = {PStr ''d''})
   \<and> (\<exists>us. data_setter world3 [12, 11, 12] = (world3, Inl (DuplicateTraces us))
         \<and> us \<noteq> [] \<and> set us = {PStr ''b''})"
proof -
  have h: "list_all hashable [PStr ''a'', PStr ''b'', PStr ''c'']"
          "list_all hashable [PStr ''b'', PStr ''d'']"
          "list_all hashable [PStr ''b'', PStr ''a'', PStr ''b'']"
    by simp_all
  have n1: "map_result (trace_uid world3) [12, 14] = Inr [PStr ''b'', PStr ''d'']"
   and n2: "map_result (trace_uid world3) [12, 11, 12] = Inr [PStr ''b'', PStr ''a'', PStr ''b'']"
    by (simp_all add: world3_trace_uid)
  have s1: "set [PStr ''b'', PStr ''d''] - set [PStr ''a'', PStr ''b'', PStr ''c''] = {PStr ''d''}"
    by auto
  have s2: "{u \<in> set [PStr ''b'', PStr ''a'', PStr ''b''].
              count_list [PStr ''b'', PStr ''a'', PStr ''b''] u > 1} = {PStr ''b''}"
    by auto
  have "\<exists>us. data_setter world3 [12, 14] = (world3, Inl (InvalidTraces us))
         \<and> us \<noteq> [] \<and> set us = {PStr ''d''}"
    using data_setter_rejects_unknown_and_repeated [OF world3_uids n1 h(1) h(2)]
    unfolding s1 by auto
  moreover have "\<exists>us. data_setter world3 [12, 11, 12] = (world3, Inl (DuplicateTraces us))
         \<and> us \<noteq> [] \<and> set us = {PStr ''b''}"
    using data_setter_rejects_unknown_and_repeated [OF world3_uids n2 h(1) h(3)]
    unfolding s2 by auto
  ultimately show ?thesis by simp
qed


section \<open>Removing a trace by assignment\<close>

lemma index_of_Some_iff:
  "index_of xs x = Some i \<longleftrightarrow> i < length xs \<and> xs ! i = x \<and> x \<notin> set (take i xs)"
proof (induction xs arbitrary: i)
  case Nil
  then show ?case by simp
next
  case (Cons y ys)
  show ?case
  proof (cases i)
    case 0
    then show ?thesis by (auto simp: Cons.IH)
  next
    case (Suc j)
    then show ?thesis by (auto simp: Cons.IH)
  qed
qed

lemma index_of_None_iff: "index_of xs x = None \<longleftrightarrow> x \<notin> set xs"
  by (induction xs) auto

lemma index_of_nth_distinct:
  "distinct xs \<Longrightarrow> i < length xs \<Longrightarrow> index_of xs (xs ! i) = Some i"
  by (auto simp: index_of_Some_iff distinct_conv_nth dest!: in_set_takeD
      simp: in_set_conv_nth)

lemma map_result_Inr_D:
  "map_result f xs = Inr ys \<Longrightarrow> list_all2 (\<lambda>x y. f x = Inr y) xs ys"
  by (induction xs arbitrary: ys) (auto split: sum.splits)

lemma map_result_Inr_I:
  "list_all2 (\<lambda>x y. f x = Inr y) xs ys \<Longrightarrow> map_result f xs = Inr ys"
  by (induction rule: list_all2_induct) auto

lemma map_result_Inr_iff:
  "map_result f xs = Inr ys \<longleftrightarrow> list_all2 (\<lambda>x y. f x = Inr y) xs ys"
  using map_result_Inr_D map_result_Inr_I by blast

lemma map_result_nth:
  "map_result f xs = Inr ys \<Longrightarrow> length ys = length xs \<and> (\<forall>i<length xs. f (xs ! i) = Inr (ys ! i))"
  by (auto simp: map_result_Inr_iff list_all2_conv_all_nth)

lemma map_result_map:
  "(\<And>x. x \<in> set xs \<Longrightarrow> f x = Inr (g x)) \<Longrightarrow> map_result f xs = Inr (map g xs)"
  by (induction xs) auto

lemma unparent_removed_wfig:
  "unparent_removed w us new_uids i acc = (w', r) \<Longrightarrow> wfig w' = wfig w"
proof (induction us arbitrary: w i acc)
  case Nil
  then show ?case by simp
next
  case (Cons u us)
  show ?case
  proof (cases "u \<in> set new_uids")
    case True
    with Cons show ?thesis by simp
  next
    case False
    show ?thesis
    proof (cases "props_of w (fig_data_objs (wfig w) ! i)")
      case (Inl e)
      with Cons.prems False show ?thesis by (auto simp: Let_def split: if_splits)
    next
      case (Inr v)
      show ?thesis
      proof (cases "\<exists>m. v = Some (PDict m)")
        case True
        then obtain m where "v = Some (PDict m)" by blast
        with Cons.prems False Inr show ?thesis
          using Cons.IH by (auto simp: Let_def split: if_splits)
      next
        case False
        with Cons.prems \<open>u \<notin> set new_uids\<close> Inr show ?thesis
          by (auto simp: Let_def split: if_splits option.splits pval.splits)
      qed
    qed
  qed
qed

lemma unparent_removed_none:
  "set us \<subseteq> set new_uids \<Longrightarrow> unparent_removed w us new_uids i acc = (w, Inr acc)"
  by (induction us arbitrary: i) auto

lemma props_of_trace:
  assumes "obj_parent (heap w (fig_data_objs (wfig w) ! i)) = Some ParentFigure"
      and "distinct (fig_data_objs (wfig w))"
      and "i < length (fig_data_objs (wfig w))" and "i < length (fig_data (wfig w))"
  shows "props_of w (fig_data_objs (wfig w) ! i) = Inr (Some (fig_data (wfig w) ! i))"
  using assms
  by (simp add: props_of_def recursion_limit_def get_child_props_figure index_of_nth_distinct)






lemma world3_validate_13_11:
  "validate_new_data world3 [13, 11]
     = Inr ([PStr ''a'', PStr ''b'', PStr ''c''], [PStr ''c'', PStr ''a''])"
  by (simp add: validate_new_data_def world3_uids world3_trace_uid)

lemma world3_props_12: "props_of world3 12 = Inr (Some (trace_dict ''b''))"
  by (simp add: props_of_def recursion_limit_def get_child_props_figure world3_def heap3_def
        trace_obj_def fig3_def fig0_def)

lemmas world3_eval =
  data_setter_def validate_new_data_def mirror_uids_def trace_uid_def getitem_simple_def
  props_of_def recursion_limit_def get_child_props_figure world3_def heap3_def trace_obj_def
  fig3_def fig0_def trace_dict_def delete_all_def send_delete_traces_def move_traces_def
  py_sorted_def py_insert_def Let_def upt_rec[of _ "numeral _"] upt_rec[of 0] upt_rec[of "Suc _"]


lemma world3_remove_b_outbox:
  "outbox (wfig (fst (data_setter world3 [13, 11]))) = [DeleteTraces [1] 1, MoveTraces [0, 1] [1, 0]]"
  by (simp add: world3_eval)

lemma world3_identity:
  "data_setter world3 [11, 12, 13] = (world3, Inr ())"
  by (simp add: world3_eval)



section \<open>Reordering the traces by assignment\<close>

lemma subscript_str_Inr:
  "subscript v (KStr s) = Inr x \<Longrightarrow> \<exists>m. v = PDict m \<and> fmlookup m (KStr s) = Some x"
  by (cases v) (auto split: option.splits)

lemma delete_all_Nil [simp]: "delete_all [] xs = Inr xs"
proof -
  have "filter (\<lambda>(i, x). True) (zip [0..<length xs] xs) = zip [0..<length xs] xs"
    by simp
  then show ?thesis by (simp add: delete_all_def)
qed

lemma py_sorted_distinct:
  "distinct (map fst ps) \<Longrightarrow> py_sorted ps = Inr (sort_key fst ps)"
proof -
  assume d: "distinct (map fst ps)"
  have "\<not> list_ex (\<lambda>p. list_ex (\<lambda>q. fst p = fst q \<and> snd p \<noteq> snd q) ps) ps"
  proof
    assume "list_ex (\<lambda>p. list_ex (\<lambda>q. fst p = fst q \<and> snd p \<noteq> snd q) ps) ps"
    then obtain p q where "p \<in> set ps" "q \<in> set ps" "fst p = fst q" "snd p \<noteq> snd q"
      by (auto simp: list_ex_iff)
    with d show False
      by (metis distinct_map inj_onD prod_eqI)
  qed
  then show ?thesis by (simp add: py_sorted_def)
qed

lemma list_all_zip_upt:
  "length xs = n \<Longrightarrow> list_all (\<lambda>(i1, i2). i1 = i2) (zip xs [0..<n]) \<longleftrightarrow> xs = [0..<n]"
  by (auto simp: list_all_length list_eq_iff_nth_eq)

lemma index_of_in_set:
  "x \<in> set xs \<Longrightarrow> \<exists>i. index_of xs x = Some i \<and> i < length xs \<and> xs ! i = x"
  using index_of_Some_iff[of xs x] index_of_None_iff[of xs x]
  by (cases "index_of xs x") auto

lemma distinct_map_fst_sort_key:
  "distinct (map fst (sort_key fst ps)) = distinct (map fst ps)"
  by (simp add: distinct_map)

lemma distinct_map_fst_zip:
  "distinct xs \<Longrightarrow> distinct (map fst (zip xs ys))"
  by (simp add: map_fst_zip_take)

lemma move_traces_distinct:
  assumes "distinct new_inds" and "length new_inds = length (fig_data fig)"
  shows "\<exists>fig'. move_traces fig new_inds dflts new_data = (fig', Inr ())
           \<and> fig_data_objs fig' = new_data
           \<and> outbox fig' = outbox fig @
               (if new_inds = [0..<length (fig_data fig)] then []
                else [MoveTraces [0..<length (fig_data fig)] new_inds])"
proof (cases "new_inds = [0..<length (fig_data fig)]")
  case True
  have "list_all (\<lambda>(i1, i2). i1 = i2) (zip new_inds [0..<length (fig_data fig)])"
    using list_all_zip_upt[OF assms(2)] True by simp
  moreover have "py_sorted (zip new_inds dflts) = Inr (sort_key fst (zip new_inds dflts))"
    using assms(1) by (intro py_sorted_distinct distinct_map_fst_zip)
  ultimately show ?thesis using True
    by (simp add: move_traces_def Let_def)
next
  case False
  let ?fig1 = "fig\<lparr>outbox := outbox fig @ [MoveTraces [0..<length (fig_data fig)] new_inds]\<rparr>"
  have c: "\<not> list_all (\<lambda>(i1, i2). i1 = i2) (zip new_inds [0..<length (fig_data fig)])"
    using list_all_zip_upt[OF assms(2)] False by simp
  have s1: "py_sorted (zip new_inds (fig_data ?fig1)) = Inr (sort_key fst (zip new_inds (fig_data ?fig1)))"
    using assms(1) by (intro py_sorted_distinct distinct_map_fst_zip)
  have "distinct (map fst (sort_key fst (zip new_inds (fig_data ?fig1))))"
    using assms(1) by (simp only: distinct_map_fst_sort_key distinct_map_fst_zip)
  then have s2: "py_sorted (zip (map fst (sort_key fst (zip new_inds (fig_data ?fig1)))) dflts)
        = Inr (sort_key fst (zip (map fst (sort_key fst (zip new_inds (fig_data ?fig1)))) dflts))"
    by (intro py_sorted_distinct distinct_map_fst_zip)
  show ?thesis using False c s1 s2
    by (simp add: move_traces_def Let_def)
qed

lemma distinct_no_duplicates:
  "distinct xs \<Longrightarrow> filter (\<lambda>u. count_list xs u > 1) (uniq xs) = []"
  using count_list_gt1_iff[of xs] by (auto simp: filter_empty_conv)

text \<open>
  C3, as amended: for a figure whose traces are in step, assigning to \<^verbatim>\<open>data\<close> a
  reordering \<open>new_data\<close> of its own trace objects succeeds, unparents no trace, sends no
  delete message, and leaves \<open>new_data\<close> as the live sequence. When the order differs
  from the current one it sends exactly one move message, whose first list is
  \<open>0, ..., n - 1\<close> and whose second list gives for every current position \<open>j\<close> the
  position of that trace in \<open>new_data\<close>; when the order is the current one it sends
  nothing.
\<close>

theorem reordering_sends_a_move_when_order_changes:
  assumes step: "traces_in_step w"
      and dn: "distinct new_data"
      and sn: "set new_data = set (fig_data_objs (wfig w))"
  shows "\<exists>w' new_inds.
           data_setter w new_data = (w', Inr ())
           \<and> heap w' = heap w
           \<and> fig_data_objs (wfig w') = new_data
           \<and> length new_inds = length new_data
           \<and> (\<forall>j<length new_data.
                 new_inds ! j < length new_data
                 \<and> new_data ! (new_inds ! j) = fig_data_objs (wfig w) ! j)
           \<and> outbox (wfig w') = outbox (wfig w) @
               (if new_data = fig_data_objs (wfig w) then []
                else [MoveTraces [0..<length new_data] new_inds])"
proof -
  let ?fig = "wfig w"
  let ?objs = "fig_data_objs ?fig"
  let ?n = "length ?objs"
  let ?dat = "fig_data ?fig"
  from step obtain uids where
    len: "length ?dat = ?n" and dobjs: "distinct ?objs"
    and par: "\<forall>t\<in>set ?objs. obj_parent (heap w t) = Some ParentFigure
                \<and> map_of (obj_validators (heap w t)) ''uid'' \<noteq> None"
    and mu: "mirror_uids ?fig = Inr uids" and du: "distinct uids" and hu: "list_all hashable uids"
    by (auto simp: traces_in_step_def list_all_iff split: sum.splits)
  from mu have lu: "length uids = ?n"
    and sub: "\<forall>i<?n. subscript (?dat ! i) (KStr ''uid'') = Inr (uids ! i)"
    using map_result_nth[of "\<lambda>t. subscript t (KStr ''uid'')" ?dat uids] len
    by (auto simp: mirror_uids_def)
  have tu: "trace_uid w (?objs ! i) = Inr (uids ! i)" if "i < ?n" for i
  proof -
    from sub that obtain m where m: "?dat ! i = PDict m" "fmlookup m (KStr ''uid'') = Some (uids ! i)"
      using subscript_str_Inr by blast
    from par that have p: "obj_parent (heap w (?objs ! i)) = Some ParentFigure"
      and v: "map_of (obj_validators (heap w (?objs ! i))) ''uid'' \<noteq> None"
      by simp_all
    have "props_of w (?objs ! i) = Inr (Some (?dat ! i))"
      using props_of_trace[OF p dobjs that] len that by simp
    with m v show ?thesis by (auto simp: trace_uid_def getitem_simple_def)
  qed
  define pos where "pos t = the (index_of ?objs t)" for t
  have pos_nth: "pos (?objs ! i) = i" if "i < ?n" for i
    using index_of_nth_distinct[OF dobjs that] by (simp add: pos_def)
  have pos_in: "pos t < ?n \<and> ?objs ! pos t = t" if "t \<in> set ?objs" for t
    using index_of_in_set[OF that] by (auto simp: pos_def)
  define new_uids where "new_uids = map (\<lambda>t. uids ! pos t) new_data"
  have nu: "map_result (trace_uid w) new_data = Inr new_uids"
    unfolding new_uids_def
  proof (rule map_result_map)
    fix t assume "t \<in> set new_data"
    then have "t \<in> set ?objs" using sn by simp
    from pos_in[OF this] tu[of "pos t"] show "trace_uid w t = Inr (uids ! pos t)" by simp
  qed
  have ln: "length new_data = ?n"
    using dn dobjs sn by (metis distinct_card)
  have lnu: "length new_uids = ?n" by (simp add: new_uids_def ln)
  have su: "set new_uids = set uids"
  proof
    show "set new_uids \<subseteq> set uids"
      using pos_in sn lu by (auto simp: new_uids_def)
    show "set uids \<subseteq> set new_uids"
    proof
      fix u assume "u \<in> set uids"
      then obtain i where i: "i < ?n" "uids ! i = u" using lu by (auto simp: in_set_conv_nth)
      then have "?objs ! i \<in> set new_data" using sn by simp
      then have "uids ! pos (?objs ! i) \<in> set new_uids" by (simp add: new_uids_def)
      with i pos_nth show "u \<in> set new_uids" by simp
    qed
  qed
  have inj: "inj_on (\<lambda>t. uids ! pos t) (set new_data)"
  proof (rule inj_onI)
    fix t t' assume a: "t \<in> set new_data" "t' \<in> set new_data" "uids ! pos t = uids ! pos t'"
    then have "t \<in> set ?objs" "t' \<in> set ?objs" using sn by simp_all
    from pos_in[OF this(1)] pos_in[OF this(2)] lu
    have pt: "pos t < length uids" "pos t' < length uids"
      and ot: "?objs ! pos t = t" "?objs ! pos t' = t'"
      by simp_all
    from nth_eq_iff_index_eq[OF du pt] a(3) have "pos t = pos t'" by blast
    with ot show "t = t'" by metis
  qed
  have dnu: "distinct new_uids"
    using dn inj by (simp add: new_uids_def distinct_map)
  have hnu: "list_all hashable new_uids"
    using hu su by (simp add: list_all_iff)
  have noinv: "filter (\<lambda>u. u \<notin> set uids) new_uids = []"
    using su by (auto simp: filter_empty_conv)
  have v: "validate_new_data w new_data = Inr (uids, new_uids)"
    using mu nu hu hnu noinv distinct_no_duplicates[OF dnu]
    by (simp add: validate_new_data_def Let_def)
  have ur: "unparent_removed w uids new_uids 0 [] = (w, Inr [])"
    using su by (intro unparent_removed_none) simp
  define new_inds where "new_inds = map (\<lambda>u. the (index_of new_uids u)) uids"
  have ni: "map_result (\<lambda>uid. case index_of new_uids uid of
                               None \<Rightarrow> Inl NotInSequence | Some i \<Rightarrow> Inr i) uids = Inr new_inds"
    unfolding new_inds_def
  proof (rule map_result_map)
    fix u assume "u \<in> set uids"
    then have "u \<in> set new_uids" using su by simp
    from index_of_in_set[OF this]
    show "(case index_of new_uids u of None \<Rightarrow> Inl NotInSequence | Some i \<Rightarrow> Inr i)
            = Inr (the (index_of new_uids u))" by auto
  qed
  have lni: "length new_inds = ?n" by (simp add: new_inds_def lu)
  have nprop: "new_inds ! j < ?n \<and> new_data ! (new_inds ! j) = ?objs ! j" if "j < ?n" for j
  proof -
    from that lu have "uids ! j \<in> set new_uids" using su by (metis nth_mem)
    from index_of_in_set[OF this] obtain p where
      p: "index_of new_uids (uids ! j) = Some p" "p < length new_uids" "new_uids ! p = uids ! j"
      by blast
    from p(1) that lu have nj: "new_inds ! j = p" by (simp add: new_inds_def)
    from p(2) lnu ln have pn: "p < length new_data" by simp
    then have mem: "new_data ! p \<in> set ?objs" using sn by (metis nth_mem)
    from p(3) pn have "uids ! pos (new_data ! p) = uids ! j" by (simp add: new_uids_def)
    moreover from pos_in[OF mem] that lu
    have pl: "pos (new_data ! p) < length uids" "j < length uids"
      and ob: "?objs ! pos (new_data ! p) = new_data ! p"
      by simp_all
    ultimately have "pos (new_data ! p) = j"
      using nth_eq_iff_index_eq[OF du pl] by blast
    with ob have "new_data ! p = ?objs ! j" by metis
    with nj p(2) lnu show ?thesis by simp
  qed
  have dni: "distinct new_inds"
    unfolding distinct_conv_nth
  proof (intro allI impI)
    fix j k assume a: "j < length new_inds" "k < length new_inds" "j \<noteq> k"
    show "new_inds ! j \<noteq> new_inds ! k"
    proof
      assume "new_inds ! j = new_inds ! k"
      with nprop[of j] nprop[of k] a lni have "?objs ! j = ?objs ! k" by metis
      moreover from a lni have "j < ?n" "k < ?n" by simp_all
      ultimately show False using nth_eq_iff_index_eq[OF dobjs] a(3) by blast
    qed
  qed
  have cond: "new_inds = [0..<?n] \<longleftrightarrow> new_data = ?objs"
  proof
    assume e: "new_inds = [0..<?n]"
    have "new_data ! j = ?objs ! j" if "j < ?n" for j
      using nprop[OF that] e that by simp
    with ln show "new_data = ?objs" by (intro nth_equalityI) simp_all
  next
    assume e: "new_data = ?objs"
    have "new_inds ! j = j" if "j < ?n" for j
    proof -
      from nprop[OF that] e have "new_inds ! j < ?n" "?objs ! (new_inds ! j) = ?objs ! j"
        by simp_all
      with nth_eq_iff_index_eq[OF dobjs this(1) that] show ?thesis by blast
    qed
    with lni show "new_inds = [0..<?n]" by (intro nth_equalityI) simp_all
  qed
  from move_traces_distinct[OF dni, of ?fig "fig_data_defaults ?fig" new_data] lni len
  obtain fig' where
    mv: "move_traces ?fig new_inds (fig_data_defaults ?fig) new_data = (fig', Inr ())"
    and o: "fig_data_objs fig' = new_data"
    and ob: "outbox fig' = outbox ?fig @
               (if new_inds = [0..<?n] then [] else [MoveTraces [0..<?n] new_inds])"
    by auto
  have ds: "data_setter w new_data = (w\<lparr>wfig := fig'\<rparr>, Inr ())"
    using v ur ni mv by (simp add: data_setter_def send_delete_traces_def)
  show ?thesis
  proof (intro exI[of _ "w\<lparr>wfig := fig'\<rparr>"] exI[of _ new_inds] conjI)
    show "data_setter w new_data = (w\<lparr>wfig := fig'\<rparr>, Inr ())" by (rule ds)
    show "heap (w\<lparr>wfig := fig'\<rparr>) = heap w" by simp
    show "fig_data_objs (wfig (w\<lparr>wfig := fig'\<rparr>)) = new_data" using o by simp
    show "length new_inds = length new_data" using lni ln by simp
    show "\<forall>j<length new_data. new_inds ! j < length new_data
            \<and> new_data ! (new_inds ! j) = ?objs ! j"
      using nprop ln by simp
    show "outbox (wfig (w\<lparr>wfig := fig'\<rparr>)) = outbox ?fig @
            (if new_data = ?objs then [] else [MoveTraces [0..<length new_data] new_inds])"
      using ob cond ln by simp
  qed
qed

lemma world3_in_step: "traces_in_step world3"
  by (simp add: traces_in_step_def mirror_uids_def world3_def fig3_def fig0_def heap3_def
        trace_obj_def trace_dict_def)

text \<open>
  C3 as stated fails for the reordering that keeps the order: line 301 sends the move
  message only when \<^verbatim>\<open>new_inds\<close> differs from \<^verbatim>\<open>current_inds\<close>. Assigning the three
  traces of the example figure in their current order changes nothing and sends
  nothing.
\<close>

theorem same_order_sends_no_move:
  "traces_in_step world3
   \<and> distinct [11, 12, 13 :: nat] \<and> set [11, 12, 13] = set (fig_data_objs (wfig world3))
   \<and> data_setter world3 [11, 12, 13] = (world3, Inr ())
   \<and> outbox (wfig (fst (data_setter world3 [11, 12, 13]))) = outbox (wfig world3)"
proof -
  have "data_setter world3 [11, 12, 13] = (world3, Inr ())"
    by (simp add: world3_eval)
  moreover have "set [11, 12, 13] = set (fig_data_objs (wfig world3))"
    by (simp add: world3_def fig3_def fig0_def)
  ultimately show ?thesis using world3_in_step by simp
qed

theorem reordering_sends_a_move_when_order_changes_witness:
  "\<exists>w' new_inds.
     data_setter world3 [13, 11, 12] = (w', Inr ())
     \<and> fig_data_objs (wfig w') = [13, 11, 12]
     \<and> length new_inds = 3
     \<and> [13, 11, 12 :: addr] ! (new_inds ! 0) = 11
     \<and> [13, 11, 12 :: addr] ! (new_inds ! 1) = 12
     \<and> [13, 11, 12 :: addr] ! (new_inds ! 2) = 13
     \<and> outbox (wfig w') = [MoveTraces [0, 1, 2] new_inds]"
proof -
  have d: "distinct [13, 11, 12 :: nat]" by simp
  have s: "set [13, 11, 12] = set (fig_data_objs (wfig world3))"
    by (auto simp: world3_def fig3_def fig0_def)
  have o: "fig_data_objs (wfig world3) = [11, 12, 13]" "outbox (wfig world3) = []"
    by (simp_all add: world3_def fig3_def fig0_def)
  have u: "[0..<3] = [0, 1, 2]" by (simp add: upt_rec[of _ "numeral _"] upt_rec[of 0] upt_rec[of "Suc _"])
  from reordering_sends_a_move_when_order_changes [OF world3_in_step d s]
  obtain w' new_inds where
    r: "data_setter world3 [13, 11, 12] = (w', Inr ())"
       "fig_data_objs (wfig w') = [13, 11, 12]"
       "length new_inds = length [13, 11, 12 :: nat]"
       "\<forall>j<length [13, 11, 12 :: nat]. new_inds ! j < length [13, 11, 12 :: nat]
            \<and> [13, 11, 12] ! (new_inds ! j) = fig_data_objs (wfig world3) ! j"
       "outbox (wfig w') = outbox (wfig world3) @
               (if [13, 11, 12] = fig_data_objs (wfig world3) then []
                else [MoveTraces [0..<length [13, 11, 12 :: nat]] new_inds])"
    by blast
  from r(4) [rule_format, of 0] r(4) [rule_format, of 1] r(4) [rule_format, of 2]
  have "[13, 11, 12 :: addr] ! (new_inds ! 0) = 11" "[13, 11, 12 :: addr] ! (new_inds ! 1) = 12"
    "[13, 11, 12 :: addr] ! (new_inds ! 2) = 13"
    by (simp_all add: o)
  moreover from r(5) have "outbox (wfig w') = [MoveTraces [0, 1, 2] new_inds]"
    by (simp add: o u)
  moreover from r(3) have "length new_inds = 3" by simp
  ultimately show ?thesis using r(1,2) by blast
qed


section \<open>Restyle over several traces\<close>


lemma py_index_update [simp]: "py_index (xs[j := x]) t = py_index xs t"
  by (simp add: py_index_def)

lemma pos_of_update [simp]: "pos_of (xs[j := x]) = pos_of xs"
  by (rule ext) (simp add: pos_of_def)

declare restyle_leaf.simps [simp del]



















section \<open>Repeating a restyle\<close>


















































section \<open>Subplot properties of the layout\<close>

lemma subplotid_match_D:
  assumes "subplotid_match prop = Some (base, ds)"
  shows "base \<in> set subplotid_prop_names" and "prop = base @ ds" and "ds \<noteq> []"
    and "list_all is_digit ds"
proof -
  let ?ok = "\<lambda>name. is_prefix name prop \<and> drop (length name) prop \<noteq> []
                      \<and> list_all is_digit (drop (length name) prop)"
  from assms obtain names where f: "filter ?ok subplotid_prop_names = base # names"
    and d: "ds = drop (length base) prop"
    by (auto simp: subplotid_match_def split: list.splits)
  have "base \<in> set (filter ?ok subplotid_prop_names)" unfolding f by simp
  then have b: "base \<in> set subplotid_prop_names" and ok: "?ok base" by simp_all
  have pre: "is_prefix xs ys \<Longrightarrow> ys = xs @ drop (length xs) ys" for xs ys :: string
    by (induction xs ys rule: is_prefix.induct) auto
  show "base \<in> set subplotid_prop_names" by (rule b)
  show "prop = base @ ds" using pre ok d by blast
  show "ds \<noteq> []" using ok d by simp
  show "list_all is_digit ds" using ok d by simp
qed

lemma subplotid_validator_known:
  "base \<in> set subplotid_prop_names \<Longrightarrow> \<exists>cls. map_of subplotid_validators base = Some cls"
  by (auto simp: subplotid_prop_names_def subplotid_validators_def)

lemma in_batch_mode_of_orphan:
  "0 < n \<Longrightarrow> obj_parent (heap w a) = None \<Longrightarrow> in_batch_mode_of n w a = Inr False"
  by (cases n) simp_all

lemma in_batch_mode_of_figure_child:
  "0 < n \<Longrightarrow> obj_parent (heap w a) = Some ParentFigure \<Longrightarrow>
   in_batch_mode_of n w a = Inr (in_batch_mode (wfig w))"
  by (cases n) simp_all

lemma set_compound_prop_orphan:
  assumes "obj_parent (heap w self) = None" and "obj_parent (heap w c) = None" and "c \<noteq> self"
      and "map_of (obj_compound_props (heap w self)) prop = None"
      and "map_of (obj_validators (heap w self)) prop = Some vd"
      and "validate_coerce vd w raw = (w, Inr (Some c))"
  shows "\<exists>w'. set_compound_prop uc validate_coerce w self prop (Given raw) = (w', Inr (Some c))
           \<and> wfig w' = wfig w
           \<and> obj_validators (heap w' self) = obj_validators (heap w self)
           \<and> obj_subplotid_props (heap w' self) = obj_subplotid_props (heap w self)
           \<and> obj_compound_props (heap w' self) = dict_set (obj_compound_props (heap w self)) prop (Child c)
           \<and> obj_parent (heap w' self) = None
           \<and> obj_parent (heap w' c) = Some (ParentObj self)
           \<and> (\<forall>k. k \<noteq> KStr prop \<longrightarrow>
                  fmlookup (obj_orphan_props (heap w' self)) k = fmlookup (obj_orphan_props (heap w self)) k)"
  using assms
  by (simp add: set_compound_prop_def props_of_def in_batch_mode_of_orphan recursion_limit_def
        update_data_dict_def props_pop_def props_setitem_def init_props_def written_def
        vals_equal_def layout_send_update_def Let_def)


lemma put_child_props_figure:
  "0 < n \<Longrightarrow>
   put_child_props n w ParentFigure child new =
     (case index_of (fig_data_objs (wfig w)) child of
        Some trace_index \<Rightarrow>
          if trace_index < length (fig_data (wfig w))
          then Inr (w\<lparr>wfig := (wfig w)\<lparr>fig_data := (fig_data (wfig w))[trace_index := new]\<rparr>\<rparr>)
          else Inl IndexError
      | None \<Rightarrow>
          if child = fig_layout_obj (wfig w) then Inr (w\<lparr>wfig := (wfig w)\<lparr>fig_layout := new\<rparr>\<rparr>)
          else Inl UnrecognizedChild)"
  by (cases n) simp_all

lemma set_compound_prop_figure_layout:
  assumes "obj_parent (heap w self) = Some ParentFigure" and "self = fig_layout_obj (wfig w)"
      and "index_of (fig_data_objs (wfig w)) self = None" and "fig_layout (wfig w) = PDict d"
      and "obj_parent (heap w c) = None"
      and "map_of (obj_compound_props (heap w self)) prop = None"
      and "map_of (obj_validators (heap w self)) prop = Some vd"
      and "validate_coerce vd w raw = (w, Inr (Some c))"
  shows "\<exists>w' d'. set_compound_prop uc validate_coerce w self prop (Given raw) = (w', Inr (Some c))
           \<and> obj_validators (heap w' self) = obj_validators (heap w self)
           \<and> obj_subplotid_props (heap w' self) = obj_subplotid_props (heap w self)
           \<and> obj_compound_props (heap w' self) = dict_set (obj_compound_props (heap w self)) prop (Child c)
           \<and> obj_parent (heap w' self) = Some ParentFigure
           \<and> obj_parent (heap w' c) = Some (ParentObj self)
           \<and> fig_layout_obj (wfig w') = fig_layout_obj (wfig w)
           \<and> fig_data_objs (wfig w') = fig_data_objs (wfig w)
           \<and> fig_layout (wfig w') = PDict d'
           \<and> (\<forall>k. k \<noteq> KStr prop \<longrightarrow> fmlookup d' k = fmlookup d k)"
proof -
  from assms(1,5) have ne: "c \<noteq> self" by auto
  show ?thesis
    using assms ne
    by (simp add: set_compound_prop_def props_of_def in_batch_mode_of_figure_child recursion_limit_def
        update_data_dict_def props_pop_def props_setitem_def init_props_def written_def
        vals_equal_def layout_send_update_def Let_def get_child_props_figure put_child_props_figure
        relayout_child_def send_relayout_msg_def)
qed

lemma digits_not_small: "2 \<le> (n :: int) \<Longrightarrow> n \<notin> {0, 1}"
  by auto

text \<open>
  C6: an assignment to a subplot property of the layout, a name that is one of
  \<^verbatim>\<open>xaxis\<close>, \<^verbatim>\<open>yaxis\<close>, \<^verbatim>\<open>geo\<close>, \<^verbatim>\<open>ternary\<close>, \<^verbatim>\<open>scene\<close> followed by digits. With a
  suffix that reads 0 or 1 it is refused, whatever is assigned, and nothing changes; the
  exception is the \<^verbatim>\<open>TypeError\<close> of line 1803. With a suffix of 2 or more, when the
  validator hands back an object that belongs to nothing, the name has no child yet, and
  the layout belongs to nothing or is the layout of the figure, the assignment returns
  normally: the name has a validator of the class of the unsuffixed name with the
  suffixed name as its property name (the one it had, if it had one), reading the name
  gives the object, the object is a child of the layout, and the children, validators
  and stored properties under every other name, the unsuffixed one among them, are as
  before.
\<close>

theorem subplot_suffix_rule:
  assumes m: "subplotid_match prop = Some (base, ds)"
  shows "(digits_val ds \<in> {0, 1} \<longrightarrow>
            layout_setattr ordinary uc vc w self prop val = (w, Inl (SubplotSuffix prop)))
       \<and> base \<noteq> prop
       \<and> (2 \<le> digits_val ds
            \<and> (\<forall>v w0. vc v w0 raw = (w0, Inr (Some c)))
            \<and> obj_parent (heap w c) = None \<and> c \<noteq> self
            \<and> map_of (obj_compound_props (heap w self)) prop = None
            \<and> (obj_parent (heap w self) = None
                \<or> obj_parent (heap w self) = Some ParentFigure
                   \<and> self = fig_layout_obj (wfig w) \<and> self \<notin> set (fig_data_objs (wfig w))
                   \<and> is_dict (fig_layout (wfig w)))
          \<longrightarrow> (\<exists>w' cls d d'.
                 layout_setattr ordinary uc vc w self prop (Given raw) = (w', Inr ())
               \<and> map_of subplotid_validators base = Some cls
               \<and> map_of (obj_validators (heap w' self)) prop
                   = Some (case map_of (obj_validators (heap w self)) prop of
                             None \<Rightarrow> Validator cls prop | Some v \<Rightarrow> v)
               \<and> layout_getattr w' self prop = Inr (Some c)
               \<and> map_of (obj_compound_props (heap w' self)) prop = Some (Child c)
               \<and> obj_parent (heap w' c) = Some (ParentObj self)
               \<and> (\<forall>q. q \<noteq> prop \<longrightarrow>
                      map_of (obj_compound_props (heap w' self)) q
                        = map_of (obj_compound_props (heap w self)) q
                    \<and> map_of (obj_subplotid_props (heap w' self)) q
                        = map_of (obj_subplotid_props (heap w self)) q
                    \<and> map_of (obj_validators (heap w' self)) q
                        = map_of (obj_validators (heap w self)) q)
               \<and> props_of w self = Inr (Some (PDict d))
               \<and> props_of w' self = Inr (Some (PDict d'))
               \<and> (\<forall>q. q \<noteq> prop \<longrightarrow> fmlookup d' (KStr q) = fmlookup d (KStr q))))"
proof (intro conjI impI)
  assume "digits_val ds \<in> {0, 1}"
  then show "layout_setattr ordinary uc vc w self prop val = (w, Inl (SubplotSuffix prop))"
    using m by (simp add: layout_setattr_def set_subplotid_prop_def)
next
  from subplotid_match_D[OF m] show "base \<noteq> prop" by auto
next
  assume a: "2 \<le> digits_val ds
            \<and> (\<forall>v w0. vc v w0 raw = (w0, Inr (Some c)))
            \<and> obj_parent (heap w c) = None \<and> c \<noteq> self
            \<and> map_of (obj_compound_props (heap w self)) prop = None
            \<and> (obj_parent (heap w self) = None
                \<or> obj_parent (heap w self) = Some ParentFigure
                   \<and> self = fig_layout_obj (wfig w) \<and> self \<notin> set (fig_data_objs (wfig w))
                   \<and> is_dict (fig_layout (wfig w)))"
  then have big: "digits_val ds \<notin> {0, 1}" using digits_not_small by blast
  from a have vc: "\<And>v w0. vc v w0 raw = (w0, Inr (Some c))" by blast
  from a have co: "obj_parent (heap w c) = None" and ne: "c \<noteq> self"
    and nc: "map_of (obj_compound_props (heap w self)) prop = None" by blast+
  from subplotid_match_D(1)[OF m] obtain cls where cls: "map_of subplotid_validators base = Some cls"
    using subplotid_validator_known by blast
  define V where "V = (case map_of (obj_validators (heap w self)) prop of
                             None \<Rightarrow> Validator cls prop | Some v \<Rightarrow> v)"
  define w1 where "w1 = (if map_of (obj_validators (heap w self)) prop = None
                            then w\<lparr>heap := (heap w)(self := (heap w self)
                                   \<lparr>obj_validators :=
                                      dict_set (obj_validators (heap w self)) prop
                                        (Validator cls prop)\<rparr>)\<rparr>
                            else w)"
  have f1: "wfig w1 = wfig w" "\<And>x. obj_parent (heap w1 x) = obj_parent (heap w x)"
    "\<And>x. obj_compound_props (heap w1 x) = obj_compound_props (heap w x)"
    "\<And>x. obj_orphan_props (heap w1 x) = obj_orphan_props (heap w x)"
    "\<And>x. obj_subplotid_props (heap w1 x) = obj_subplotid_props (heap w x)"
    by (simp_all add: w1_def)
  have v1: "map_of (obj_validators (heap w1 self)) prop = Some V"
    by (auto simp: w1_def V_def map_of_dict_set)
  have v1': "map_of (obj_validators (heap w1 self)) q = map_of (obj_validators (heap w self)) q"
    if "q \<noteq> prop" for q
    using that by (simp add: w1_def map_of_dict_set)
  have step: "layout_setattr ordinary uc vc w self prop (Given raw) =
      (case set_compound_prop uc vc w1 self prop (Given raw) of
         (w2, Inl e) \<Rightarrow> (w2, Inl e)
       | (w2, Inr child) \<Rightarrow>
           (w2\<lparr>heap := (heap w2)(self := (heap w2 self)
                  \<lparr>obj_subplotid_props := dict_set (obj_subplotid_props (heap w2 self)) prop child\<rparr>)\<rparr>,
            Inr ()))"
    using m big cls by (simp add: layout_setattr_def set_subplotid_prop_def w1_def Let_def)
  from a have "obj_parent (heap w self) = None
                \<or> obj_parent (heap w self) = Some ParentFigure
                   \<and> self = fig_layout_obj (wfig w) \<and> self \<notin> set (fig_data_objs (wfig w))
                   \<and> is_dict (fig_layout (wfig w))"
    by simp
  then consider (orphan) "obj_parent (heap w self) = None"
    | (layout) "obj_parent (heap w self) = Some ParentFigure" "self = fig_layout_obj (wfig w)"
        "self \<notin> set (fig_data_objs (wfig w))" "is_dict (fig_layout (wfig w))"
    by (elim disjE conjE) blast+
  then show "\<exists>w' cls d d'.
                 layout_setattr ordinary uc vc w self prop (Given raw) = (w', Inr ())
               \<and> map_of subplotid_validators base = Some cls
               \<and> map_of (obj_validators (heap w' self)) prop
                   = Some (case map_of (obj_validators (heap w self)) prop of
                             None \<Rightarrow> Validator cls prop | Some v \<Rightarrow> v)
               \<and> layout_getattr w' self prop = Inr (Some c)
               \<and> map_of (obj_compound_props (heap w' self)) prop = Some (Child c)
               \<and> obj_parent (heap w' c) = Some (ParentObj self)
               \<and> (\<forall>q. q \<noteq> prop \<longrightarrow>
                      map_of (obj_compound_props (heap w' self)) q
                        = map_of (obj_compound_props (heap w self)) q
                    \<and> map_of (obj_subplotid_props (heap w' self)) q
                        = map_of (obj_subplotid_props (heap w self)) q
                    \<and> map_of (obj_validators (heap w' self)) q
                        = map_of (obj_validators (heap w self)) q)
               \<and> props_of w self = Inr (Some (PDict d))
               \<and> props_of w' self = Inr (Some (PDict d'))
               \<and> (\<forall>q. q \<noteq> prop \<longrightarrow> fmlookup d' (KStr q) = fmlookup d (KStr q))"
  proof cases
    case orphan
    from set_compound_prop_orphan[of w1 self c "prop" V vc raw uc] orphan co ne nc v1 vc f1
    obtain w2 where r: "set_compound_prop uc vc w1 self prop (Given raw) = (w2, Inr (Some c))"
      and k: "obj_validators (heap w2 self) = obj_validators (heap w1 self)"
        "obj_subplotid_props (heap w2 self) = obj_subplotid_props (heap w self)"
        "obj_compound_props (heap w2 self) = dict_set (obj_compound_props (heap w self)) prop (Child c)"
        "obj_parent (heap w2 self) = None"
        "obj_parent (heap w2 c) = Some (ParentObj self)"
        "\<forall>k. k \<noteq> KStr prop \<longrightarrow>
            fmlookup (obj_orphan_props (heap w2 self)) k = fmlookup (obj_orphan_props (heap w self)) k"
      by auto
    let ?w' = "w2\<lparr>heap := (heap w2)(self := (heap w2 self)
                  \<lparr>obj_subplotid_props := dict_set (obj_subplotid_props (heap w2 self)) prop (Some c)\<rparr>)\<rparr>"
    have "layout_setattr ordinary uc vc w self prop (Given raw) = (?w', Inr ())"
      by (simp add: step r)
    moreover have "map_of (obj_validators (heap ?w' self)) prop = Some V"
      by (simp add: k v1)
    moreover have "layout_getattr ?w' self prop = Inr (Some c)"
      by (simp add: layout_getattr_def map_of_dict_set)
    moreover have "map_of (obj_compound_props (heap ?w' self)) prop = Some (Child c)"
      by (simp add: k map_of_dict_set)
    moreover have "obj_parent (heap ?w' c) = Some (ParentObj self)"
      using ne by (simp add: k)
    moreover have "\<forall>q. q \<noteq> prop \<longrightarrow>
                      map_of (obj_compound_props (heap ?w' self)) q
                        = map_of (obj_compound_props (heap w self)) q
                    \<and> map_of (obj_subplotid_props (heap ?w' self)) q
                        = map_of (obj_subplotid_props (heap w self)) q
                    \<and> map_of (obj_validators (heap ?w' self)) q
                        = map_of (obj_validators (heap w self)) q"
      by (simp add: k map_of_dict_set v1')
    moreover have "props_of w self = Inr (Some (PDict (obj_orphan_props (heap w self))))"
      by (simp add: props_of_def orphan)
    moreover have "props_of ?w' self = Inr (Some (PDict (obj_orphan_props (heap w2 self))))"
      by (simp add: props_of_def k)
    moreover have "\<forall>q. q \<noteq> prop \<longrightarrow>
        fmlookup (obj_orphan_props (heap w2 self)) (KStr q) = fmlookup (obj_orphan_props (heap w self)) (KStr q)"
      using k(6) by simp
    ultimately show ?thesis unfolding V_def using cls by blast
  next
    case layout
    from layout(4) obtain d where d: "fig_layout (wfig w) = PDict d"
      by (cases "fig_layout (wfig w)") auto
    from layout(3) have i: "index_of (fig_data_objs (wfig w)) self = None"
      by (simp add: index_of_None_iff)
    from set_compound_prop_figure_layout[of w1 self d c "prop" V vc raw uc] layout(1,2) i d co nc v1 vc f1
    obtain w2 d' where r: "set_compound_prop uc vc w1 self prop (Given raw) = (w2, Inr (Some c))"
      and k: "obj_validators (heap w2 self) = obj_validators (heap w1 self)"
        "obj_subplotid_props (heap w2 self) = obj_subplotid_props (heap w self)"
        "obj_compound_props (heap w2 self) = dict_set (obj_compound_props (heap w self)) prop (Child c)"
        "obj_parent (heap w2 self) = Some ParentFigure"
        "obj_parent (heap w2 c) = Some (ParentObj self)"
        "fig_layout_obj (wfig w2) = fig_layout_obj (wfig w)"
        "fig_data_objs (wfig w2) = fig_data_objs (wfig w)"
        "fig_layout (wfig w2) = PDict d'"
        "\<forall>k. k \<noteq> KStr prop \<longrightarrow> fmlookup d' k = fmlookup d k"
      by auto
    let ?w' = "w2\<lparr>heap := (heap w2)(self := (heap w2 self)
                  \<lparr>obj_subplotid_props := dict_set (obj_subplotid_props (heap w2 self)) prop (Some c)\<rparr>)\<rparr>"
    have "layout_setattr ordinary uc vc w self prop (Given raw) = (?w', Inr ())"
      by (simp add: step r)
    moreover have "map_of (obj_validators (heap ?w' self)) prop = Some V"
      by (simp add: k v1)
    moreover have "layout_getattr ?w' self prop = Inr (Some c)"
      by (simp add: layout_getattr_def map_of_dict_set)
    moreover have "map_of (obj_compound_props (heap ?w' self)) prop = Some (Child c)"
      by (simp add: k map_of_dict_set)
    moreover have "obj_parent (heap ?w' c) = Some (ParentObj self)"
      using ne by (simp add: k)
    moreover have "\<forall>q. q \<noteq> prop \<longrightarrow>
                      map_of (obj_compound_props (heap ?w' self)) q
                        = map_of (obj_compound_props (heap w self)) q
                    \<and> map_of (obj_subplotid_props (heap ?w' self)) q
                        = map_of (obj_subplotid_props (heap w self)) q
                    \<and> map_of (obj_validators (heap ?w' self)) q
                        = map_of (obj_validators (heap w self)) q"
      by (simp add: k map_of_dict_set v1')
    moreover have "props_of w self = Inr (Some (PDict d))"
      using layout(1,2) i d by (simp add: props_of_figure_child)
    moreover have "props_of ?w' self = Inr (Some (PDict d'))"
      using layout(2) i k by (simp add: props_of_figure_child)
    moreover have "\<forall>q. q \<noteq> prop \<longrightarrow> fmlookup d' (KStr q) = fmlookup d (KStr q)"
      using k(9) by simp
    ultimately show ?thesis unfolding V_def using cls by blast
  qed
qed

lemma subplotid_match_examples:
  "subplotid_match ''xaxis1'' = Some (''xaxis'', ''1'')"
  "subplotid_match ''xaxis2'' = Some (''xaxis'', ''2'')"
  by (simp_all add: subplotid_match_def subplotid_prop_names_def is_digit_def)

lemma digits_val_examples: "digits_val ''1'' = 1" "digits_val ''2'' = 2"
  by (simp_all add: digits_val_def digit_val_def)

lemmas world_axes_eval =
  world_axes_def heap_axes_def fig_axes_def fig0_def layout_obj_def axis_obj_def

theorem subplot_suffix_rule_witness:
  "layout_setattr no_accessor no_update_child hand_back world_axes 10 ''xaxis1'' (Given 22)
     = (world_axes, Inl (SubplotSuffix ''xaxis1''))
   \<and> (\<exists>w'. layout_setattr no_accessor no_update_child hand_back world_axes 10 ''xaxis2'' (Given 22)
              = (w', Inr ())
          \<and> map_of (obj_validators (heap w' 10)) ''xaxis2''
              = Some (Validator ''XaxisValidator'' ''xaxis2'')
          \<and> layout_getattr w' 10 ''xaxis2'' = Inr (Some 22)
          \<and> map_of (obj_compound_props (heap w' 10)) ''xaxis'' = Some (Child 21)
          \<and> obj_parent (heap w' 22) = Some (ParentObj 10))"
proof -
  have r: "layout_setattr no_accessor no_update_child hand_back world_axes 10 ''xaxis1'' (Given 22)
             = (world_axes, Inl (SubplotSuffix ''xaxis1''))"
    using subplot_suffix_rule [OF subplotid_match_examples(1), where w = world_axes and self = 10
        and ordinary = no_accessor and uc = no_update_child and vc = hand_back and val = "Given 22"]
    by (simp add: digits_val_examples)
  have h: "2 \<le> digits_val ''2''
            \<and> (\<forall>v w0. hand_back v w0 22 = (w0, Inr (Some 22)))
            \<and> obj_parent (heap world_axes 22) = None \<and> (22 :: addr) \<noteq> 10
            \<and> map_of (obj_compound_props (heap world_axes 10)) ''xaxis2'' = None
            \<and> (obj_parent (heap world_axes 10) = None
                \<or> obj_parent (heap world_axes 10) = Some ParentFigure
                   \<and> 10 = fig_layout_obj (wfig world_axes) \<and> 10 \<notin> set (fig_data_objs (wfig world_axes))
                   \<and> is_dict (fig_layout (wfig world_axes)))"
    by (simp add: digits_val_examples hand_back_def world_axes_eval)
  have v: "map_of (obj_validators (heap world_axes 10)) ''xaxis2'' = None"
    "map_of subplotid_validators ''xaxis'' = Some ''XaxisValidator''"
    "map_of (obj_compound_props (heap world_axes 10)) ''xaxis'' = Some (Child 21)"
    by (simp_all add: world_axes_eval subplotid_validators_def)
  note t = subplot_suffix_rule [OF subplotid_match_examples(2), where w = world_axes and self = 10
        and ordinary = no_accessor and uc = no_update_child and vc = hand_back and raw = 22 and c = 22]
  note ex = mp [OF t [THEN conjunct2, THEN conjunct2] h]
  then obtain w' cls where
    a: "layout_setattr no_accessor no_update_child hand_back world_axes 10 ''xaxis2'' (Given 22) = (w', Inr ())"
    and b: "map_of subplotid_validators ''xaxis'' = Some cls"
    and c: "map_of (obj_validators (heap w' 10)) ''xaxis2''
       = Some (case map_of (obj_validators (heap world_axes 10)) ''xaxis2'' of
                 None \<Rightarrow> Validator cls ''xaxis2'' | Some v \<Rightarrow> v)"
    and d: "layout_getattr w' 10 ''xaxis2'' = Inr (Some 22)"
    and e: "obj_parent (heap w' 22) = Some (ParentObj 10)"
    and f: "\<forall>q. q \<noteq> ''xaxis2'' \<longrightarrow>
        map_of (obj_compound_props (heap w' 10)) q = map_of (obj_compound_props (heap world_axes 10)) q
        \<and> map_of (obj_subplotid_props (heap w' 10)) q = map_of (obj_subplotid_props (heap world_axes 10)) q
        \<and> map_of (obj_validators (heap w' 10)) q = map_of (obj_validators (heap world_axes 10)) q"
    by (elim exE conjE) (rule that)
  from b v(2) have cls: "cls = ''XaxisValidator''" by simp
  from c v(1) cls have c': "map_of (obj_validators (heap w' 10)) ''xaxis2''
              = Some (Validator ''XaxisValidator'' ''xaxis2'')"
    by simp
  from f [rule_format, of "''xaxis''"] v(3)
  have g: "map_of (obj_compound_props (heap w' 10)) ''xaxis'' = Some (Child 21)"
    by simp
  from a c' d g e
  have "\<exists>w'. layout_setattr no_accessor no_update_child hand_back world_axes 10 ''xaxis2'' (Given 22)
              = (w', Inr ())
          \<and> map_of (obj_validators (heap w' 10)) ''xaxis2''
              = Some (Validator ''XaxisValidator'' ''xaxis2'')
          \<and> layout_getattr w' 10 ''xaxis2'' = Inr (Some 22)
          \<and> map_of (obj_compound_props (heap w' 10)) ''xaxis'' = Some (Child 21)
          \<and> obj_parent (heap w' 22) = Some (ParentObj 10)"
    by (intro exI[of _ w'] conjI)
  with r show ?thesis by (rule conjI)
qed
section \<open>The base class of a generated validator\<close>

lemma write_validator_header:
  assumes "write_validator parent_node colorscale_path n = Inr s"
  shows "\<exists>pre post. s = pre @ ''class '' @ name_validator (the_props n) @ ''(bv.''
                         @ name_base_validator n @ ''):'' @ post"
proof -
  from assms obtain rest where
    "s = ''\<newline>        \<newline>'' @ ''class '' @ name_validator (the_props n) @ ''(bv.''
           @ name_base_validator n @ ''):'' @ rest"
    by (auto simp: write_validator_def Let_def split: if_splits)
  then show ?thesis by blast
qed

lemma write_validators_header:
  assumes "n \<in> set nodes" and "write_validators parent_node colorscale_path nodes = Inr t"
  shows "\<exists>pre post. t = pre @ ''class '' @ name_validator (the_props n) @ ''(bv.''
                         @ name_base_validator n @ ''):'' @ post"
  using assms
proof (induction nodes arbitrary: t)
  case Nil
  then show ?case by simp
next
  case (Cons k nodes)
  from Cons.prems(2) obtain t1 t2 where
    k: "write_validator parent_node colorscale_path k = Inr t1"
    and r: "write_validators parent_node colorscale_path nodes = Inr t2"
    and t: "t = t1 @ t2"
    by (auto split: sum.splits)
  show ?case
  proof (cases "n = k")
    case True
    from write_validator_header[OF k] True obtain pre post where
      "t1 = pre @ ''class '' @ name_validator (the_props n) @ ''(bv.''
                         @ name_base_validator n @ ''):'' @ post"
      by blast
    then have "t = pre @ ''class '' @ name_validator (the_props n) @ ''(bv.''
                         @ name_base_validator n @ ''):'' @ (post @ t2)"
      using t by simp
    then show ?thesis by blast
  next
    case False
    with Cons.prems(1) have "n \<in> set nodes" by simp
    from Cons.IH[OF this r] obtain pre post where
      "t2 = pre @ ''class '' @ name_validator (the_props n) @ ''(bv.''
                         @ name_base_validator n @ ''):'' @ post"
      by blast
    then have "t = (t1 @ pre) @ ''class '' @ name_validator (the_props n) @ ''(bv.''
                         @ name_base_validator n @ ''):'' @ post"
      using t by simp
    then show ?thesis by blast
  qed
qed

lemma write_validator_total:
  assumes "is_array_element (the_props k) \<or> is_compound (the_props k) \<or> is_simple (the_props k)"
  shows "\<exists>t. write_validator parent_node colorscale_path k = Inr t"
  using assms by (simp add: write_validator_def Let_def) blast

lemma write_validators_total:
  assumes "\<forall>k\<in>set nodes. is_array_element (the_props k) \<or> is_compound (the_props k)
                             \<or> is_simple (the_props k)"
  shows "\<exists>t. write_validators parent_node colorscale_path nodes = Inr t"
  using assms
proof (induction nodes)
  case Nil
  then show ?case by simp
next
  case (Cons k nodes)
  then obtain t2 where "write_validators parent_node colorscale_path nodes = Inr t2" by auto
  moreover from Cons.prems obtain t1 where "write_validator parent_node colorscale_path k = Inr t1"
    using write_validator_total[of k parent_node colorscale_path] by auto
  ultimately show ?case by simp
qed

lemma image_source_base:
  "dir_str (the_props n) = ''layout.image.source'' \<Longrightarrow> name_base_validator n = ''ImageUriValidator''"
  by (simp add: name_base_validator_def custom_validator_datatypes_def)

text \<open>
  C7: a node whose dotted path is exactly \<^verbatim>\<open>layout.image.source\<close> has the image-uri
  base, whatever its declared value kind and whatever else the node says of itself; a
  module is built for its parent, and the text that \<^verbatim>\<open>build_validators_py\<close> returns for
  any parent that has the node among its datatype nodes contains the class header of
  the node's validator with \<^verbatim>\<open>bv.ImageUriValidator\<close> as its base. The build returns a
  text when every node is an array element, a compound or a simple node.
\<close>

theorem image_source_uses_image_uri_base:
  assumes "n \<in> set (datatype_nodes parent_node extra_nodes)"
      and "dir_str (the_props n) = ''layout.image.source''"
  shows "name_base_validator n = ''ImageUriValidator''
       \<and> build_validators_py parent_node extra_nodes \<noteq> Inr None
       \<and> (\<forall>src. build_validators_py parent_node extra_nodes = Inr (Some src) \<longrightarrow>
              (\<exists>pre post. src = pre @ ''class '' @ name_validator (the_props n)
                                   @ ''(bv.ImageUriValidator):'' @ post))
       \<and> ((\<forall>k\<in>set (datatype_nodes parent_node extra_nodes).
               is_array_element (the_props k) \<or> is_compound (the_props k) \<or> is_simple (the_props k))
            \<longrightarrow> (\<exists>src. build_validators_py parent_node extra_nodes = Inr (Some src)))"
proof (intro conjI allI impI)
  show b: "name_base_validator n = ''ImageUriValidator''"
    using assms(2) by (rule image_source_base)
  from assms(1) have ne: "datatype_nodes parent_node extra_nodes \<noteq> []" by auto
  then show "build_validators_py parent_node extra_nodes \<noteq> Inr None"
    by (simp add: build_validators_py_def Let_def split: sum.splits)
  {
    fix src
    assume "build_validators_py parent_node extra_nodes = Inr (Some src)"
    with ne obtain cp body where
      w: "write_validators parent_node cp (datatype_nodes parent_node extra_nodes) = Inr body"
      and s: "src = ''import ipyplotly.basevalidators as bv\<newline>'' @ body"
      by (auto simp: build_validators_py_def Let_def split: sum.splits)
    from write_validators_header[OF assms(1) w] obtain pre post where
      "body = pre @ ''class '' @ name_validator (the_props n) @ ''(bv.''
                         @ name_base_validator n @ ''):'' @ post"
      by blast
    then have "src = (''import ipyplotly.basevalidators as bv\<newline>'' @ pre) @ ''class ''
                   @ name_validator (the_props n) @ ''(bv.ImageUriValidator):'' @ post"
      using s b by simp
    then show "\<exists>pre post. src = pre @ ''class '' @ name_validator (the_props n)
                                   @ ''(bv.ImageUriValidator):'' @ post"
      by blast
  }
  {
    assume "\<forall>k\<in>set (datatype_nodes parent_node extra_nodes).
               is_array_element (the_props k) \<or> is_compound (the_props k) \<or> is_simple (the_props k)"
    from write_validators_total[OF this] ne
    show "\<exists>src. build_validators_py parent_node extra_nodes = Inr (Some src)"
      by (simp add: build_validators_py_def Let_def split: sum.splits) (metis sum.simps(4) sum.inject(2))
  }
qed


theorem image_source_uses_image_uri_base_witness:
  "source_node \<in> set (datatype_nodes image_node [])
   \<and> node_datatype (the_props source_node) = ''string''
   \<and> name_base_validator source_node = ''ImageUriValidator''
   \<and> (\<exists>pre post. build_validators_py image_node []
          = Inr (Some (pre @ ''class SourceValidator(bv.ImageUriValidator):'' @ post)))"
proof -
  have m: "source_node \<in> set (datatype_nodes image_node [])"
    by (simp add: datatype_nodes_def image_node_def)
  have d: "dir_str (the_props source_node) = ''layout.image.source''"
    and k: "node_datatype (the_props source_node) = ''string''"
    and v: "name_validator (the_props source_node) = ''SourceValidator''"
    by (simp_all add: source_node_def)
  have s: "\<forall>k\<in>set (datatype_nodes image_node []).
             is_array_element (the_props k) \<or> is_compound (the_props k) \<or> is_simple (the_props k)"
    by (simp add: datatype_nodes_def image_node_def source_node_def)
  note t = image_source_uses_image_uri_base [OF m d]
  from t [THEN conjunct2, THEN conjunct2, THEN conjunct2] s
  obtain src where b: "build_validators_py image_node [] = Inr (Some src)"
    by blast
  from t [THEN conjunct2, THEN conjunct2, THEN conjunct1] b
  obtain pre post where "src = pre @ ''class '' @ name_validator (the_props source_node)
                                   @ ''(bv.ImageUriValidator):'' @ post"
    by blast
  then have "src = pre @ ''class SourceValidator(bv.ImageUriValidator):'' @ post"
    by (simp add: v)
  with b have "\<exists>pre post. build_validators_py image_node []
          = Inr (Some (pre @ ''class SourceValidator(bv.ImageUriValidator):'' @ post))"
    by blast
  with m k t [THEN conjunct1] show ?thesis by (intro conjI)
qed

end
